theory Spec2Isabelle
  imports Main "HOL-Library.Word" "HOL-Library.AList"
begin

unbundle bit_operations_syntax

section \<open>Data model of \<^verbatim>\<open>main.go\<close>\<close>

text \<open>
  Go's \<^verbatim>\<open>int64\<close>, and its \<^verbatim>\<open>int\<close> on a 64-bit platform, are 64-bit
  two's-complement integers: \<open>+\<close> wraps, \<open><s\<close> and \<open>\<le>s\<close> are the signed
  comparisons. \<^verbatim>\<open>healthcheckId\<close> is declared as \<^verbatim>\<open>int\<close>,
  \<^verbatim>\<open>time.Duration\<close> as \<^verbatim>\<open>int64\<close> (nanoseconds).
\<close>

type_synonym go_int = "64 word"
type_synonym healthcheckId = go_int
type_synonym Duration = "64 word"

text \<open>An \<^verbatim>\<open>error\<close> value is represented by its message.\<close>

type_synonym error = string

text \<open>
  \<^verbatim>\<open>*gojq.Query\<close> is a parsed query of the gojq library; the program only stores
  it, tests it against \<^verbatim>\<open>nil\<close> and runs it. It is represented by the text it was
  parsed from; a \<^verbatim>\<open>nil\<close> pointer is \<open>None\<close>.
\<close>

datatype gojq_Query = GojqQuery string

record JqQuery =
  Query :: "gojq_Query option"
  Expectation :: string

record HealthcheckQuery =
  Id :: healthcheckId
  Url :: string
  Method :: string
  ExpectedStatus :: go_int
  Frequency :: Duration
  JqQuery :: JqQuery

text \<open>
  Channels and tickers are objects of the Go runtime that the program holds by reference.
  A reference is an index into a store kept beside the server's own fields: a channel is
  the flag "closed", a ticker is its period and the flag "stopped".
\<close>

type_synonym chan = nat
type_synonym Ticker = nat

record healthcheckJob =
  healthcheck :: HealthcheckQuery
  quit :: chan
  ticker :: Ticker

text \<open>
  \<^verbatim>\<open>HealthcheckServer\<close>. The Go map \<^verbatim>\<open>healthchecks\<close> is an association list
  (\<open>map_of\<close> looks a key up, \<open>AList.update\<close> assigns, \<open>AList.delete\<close> deletes); its order
  stands for the unspecified order in which \<^verbatim>\<open>range\<close> visits the map. \<open>wg\<close> counts
  the calls of \<^verbatim>\<open>wg.Add(1)\<close>; \<^verbatim>\<open>httpServer\<close> plays no role in the operations below.
  \<open>chans\<close> and \<open>tickers\<close> are the stores of the runtime objects.

  The goroutines started by \<^verbatim>\<open>go h.runJob(id)\<close> are not part of the state. A runner
  holds the job it has read from the map and leaves its loop when the channel of that job
  is closed.
\<close>

record HealthcheckServer =
  healthchecks :: "(healthcheckId \<times> healthcheckJob) list"
  wg :: nat
  nextHealthcheckId :: healthcheckId
  chans :: "bool list"
  tickers :: "(Duration \<times> bool) list"

text \<open>
  A call either returns or panics. A panic leaves the mutations made before it in place:
  every operation returns the state it reached together with its outcome.
\<close>

datatype 'a outcome = Returned 'a | Panicked string

section \<open>Runtime primitives\<close>

text \<open>\<^verbatim>\<open>make(chan struct{})\<close>: a fresh, open channel.\<close>

definition make_chan :: "HealthcheckServer \<Rightarrow> chan \<times> HealthcheckServer" where
  "make_chan h = (length (chans h), h\<lparr>chans := chans h @ [False]\<rparr>)"

text \<open>
  \<^verbatim>\<open>close(c)\<close>: closing a channel that is already closed panics. Every reference
  that the program holds comes from \<open>make_chan\<close> or \<open>NewTicker\<close> and is in its store;
  on any other number \<open>close_chan\<close> panics as well and \<open>Ticker_Stop\<close> does nothing.
\<close>

definition close_chan :: "chan \<Rightarrow> HealthcheckServer \<Rightarrow> unit outcome \<times> HealthcheckServer" where
  "close_chan c h =
     (if c < length (chans h) \<and> \<not> chans h ! c
      then (Returned (), h\<lparr>chans := (chans h)[c := True]\<rparr>)
      else (Panicked ''close of closed channel'', h))"

text \<open>\<^verbatim>\<open>time.NewTicker(d)\<close> panics when \<open>d \<le> 0\<close>.\<close>

definition NewTicker :: "Duration \<Rightarrow> HealthcheckServer \<Rightarrow> Ticker outcome \<times> HealthcheckServer" where
  "NewTicker d h =
     (if d \<le>s 0 then (Panicked ''non-positive interval for NewTicker'', h)
      else (Returned (length (tickers h)), h\<lparr>tickers := tickers h @ [(d, False)]\<rparr>))"

text \<open>\<^verbatim>\<open>t.Stop()\<close>.\<close>

definition Ticker_Stop :: "Ticker \<Rightarrow> HealthcheckServer \<Rightarrow> HealthcheckServer" where
  "Ticker_Stop t h =
     (if t < length (tickers h)
      then h\<lparr>tickers := (tickers h)[t := (fst (tickers h ! t), True)]\<rparr>
      else h)"

section \<open>The registry\<close>

text \<open>\<^verbatim>\<open>NewHealthcheckServer\<close>: an empty map, every other field at its zero value.\<close>

definition NewHealthcheckServer :: HealthcheckServer where
  "NewHealthcheckServer =
     \<lparr>healthchecks = [], wg = 0, nextHealthcheckId = 0, chans = [], tickers = []\<rparr>"

text \<open>
  \<^verbatim>\<open>AddHealthcheck\<close>: the counter is incremented and the channel made before
  \<^verbatim>\<open>time.NewTicker\<close> can panic; the entry is stored only after it.
\<close>

definition AddHealthcheck ::
  "HealthcheckQuery \<Rightarrow> HealthcheckServer \<Rightarrow> healthcheckId outcome \<times> HealthcheckServer" where
  "AddHealthcheck healthcheck0 h0 =
     (let h1 = h0\<lparr>nextHealthcheckId := nextHealthcheckId h0 + 1\<rparr>;
          healthcheck1 = healthcheck0\<lparr>Id := nextHealthcheckId h1\<rparr>;
          (quit1, h2) = make_chan h1
      in case NewTicker (Frequency healthcheck1) h2 of
           (Panicked msg, h3) \<Rightarrow> (Panicked msg, h3)
         | (Returned ticker1, h3) \<Rightarrow>
             (let h4 = h3\<lparr>healthchecks :=
                          AList.update (nextHealthcheckId h3)
                            \<lparr>healthcheck = healthcheck1, quit = quit1, ticker = ticker1\<rparr>
                            (healthchecks h3)\<rparr>;
                  h5 = h4\<lparr>wg := wg h4 + 1\<rparr>
              in (Returned (nextHealthcheckId h5), h5)))"

text \<open>
  \<^verbatim>\<open>UpdateHealthcheck\<close>: \<open>job\<close> is a copy of the map's entry; the map changes only at
  the assignment \<^verbatim>\<open>h.healthchecks[id] = job\<close>. The old ticker is stopped before
  \<^verbatim>\<open>time.NewTicker\<close> can panic, the old channel is closed after it.
\<close>

definition UpdateHealthcheck ::
  "healthcheckId \<Rightarrow> HealthcheckQuery \<Rightarrow> HealthcheckServer \<Rightarrow> unit outcome \<times> HealthcheckServer" where
  "UpdateHealthcheck id' healthcheck' h0 =
     (case map_of (healthchecks h0) id' of
        None \<Rightarrow> (Returned (), h0)
      | Some job0 \<Rightarrow>
          (let job1 = job0\<lparr>healthcheck := healthcheck'\<rparr>;
               h1 = Ticker_Stop (ticker job1) h0
           in case NewTicker (Frequency healthcheck') h1 of
                (Panicked msg, h2) \<Rightarrow> (Panicked msg, h2)
              | (Returned t, h2) \<Rightarrow>
                  (let job2 = job1\<lparr>ticker := t\<rparr>
                   in case close_chan (quit job2) h2 of
                        (Panicked msg, h3) \<Rightarrow> (Panicked msg, h3)
                      | (Returned u, h3) \<Rightarrow>
                          (let (c, h4) = make_chan h3;
                               job3 = job2\<lparr>quit := c\<rparr>;
                               h5 = h4\<lparr>wg := wg h4 + 1\<rparr>;
                               h6 = h5\<lparr>healthchecks := AList.update id' job3 (healthchecks h5)\<rparr>
                           in (Returned (), h6)))))"

text \<open>\<^verbatim>\<open>StopHealthcheck\<close>.\<close>

definition StopHealthcheck ::
  "healthcheckId \<Rightarrow> HealthcheckServer \<Rightarrow> unit outcome \<times> HealthcheckServer" where
  "StopHealthcheck id' h0 =
     (case map_of (healthchecks h0) id' of
        None \<Rightarrow> (Returned (), h0)
      | Some job \<Rightarrow>
          (case close_chan (quit job) h0 of
             (Panicked msg, h1) \<Rightarrow> (Panicked msg, h1)
           | (Returned u, h1) \<Rightarrow>
               (Returned (), h1\<lparr>healthchecks := AList.delete id' (healthchecks h1)\<rparr>)))"

section \<open>The libraries and the network\<close>

text \<open>
  The anonymous struct \<^verbatim>\<open>d\<close> of \<^verbatim>\<open>UnmarshalJSON\<close> and its
  \<^verbatim>\<open>marshalledJqQuery\<close>. The struct has no field for an id.
\<close>

record marshalledJqQuery =
  mq_Query :: string
  mq_Expectation :: string

record d_struct =
  d_Url :: string
  d_Method :: string
  d_ExpectedStatus :: go_int
  d_Frequency :: string
  d_JqQuery :: "marshalledJqQuery option"

text \<open>
  A value of type \<^verbatim>\<open>interface{}\<close> as \<^verbatim>\<open>encoding/json\<close> and gojq produce it.
  gojq hands an evaluation error to the caller as a value of the result sequence.
\<close>

datatype any =
    AnyNil
  | AnyBool bool
  | AnyNumber int
  | AnyString string
  | AnyArray "any list"
  | AnyObject "(string \<times> any) list"
  | AnyError error

record Request =
  req_Method :: string
  req_Url :: string
  req_Header :: "(string \<times> string) list"

text \<open>\<open>Body\<close> is what \<^verbatim>\<open>io.ReadAll(resp.Body)\<close> returns.\<close>

record http_Response =
  StatusCode :: go_int
  Body :: "error + string"

text \<open>
  The functions of the standard library and of gojq that the program calls, and the
  network behind \<^verbatim>\<open>httpClient.Do\<close>, are parameters of the model:
  \<^item> \<open>Decoder_readValue\<close>: the scan of \<^verbatim>\<open>json.Decoder.Decode\<close>, which fails on a
    body that is not JSON and otherwise hands the bytes of the value to
    \<^verbatim>\<open>UnmarshalJSON\<close>;
  \<^item> \<open>json_Unmarshal_d\<close>: \<^verbatim>\<open>json.Unmarshal(data, &d)\<close> on the zero-initialised
    \<^verbatim>\<open>d\<close>: the error it returns, if any, and the fields it has filled;
  \<^item> \<open>ParseDuration\<close>, \<open>gojq_Parse\<close>, \<open>http_NewRequest\<close>, \<open>httpClient_Do\<close>,
    \<open>json_Unmarshal_any\<close> (\<^verbatim>\<open>json.Unmarshal(body, &data)\<close>) and \<open>gojq_Run\<close>
    (the sequence that \<^verbatim>\<open>Query.Run(data)\<close> iterates over).
\<close>

record lib =
  Decoder_readValue :: "string \<Rightarrow> error + string"
  json_Unmarshal_d :: "string \<Rightarrow> error option \<times> d_struct"
  ParseDuration :: "string \<Rightarrow> error + Duration"
  gojq_Parse :: "string \<Rightarrow> error + gojq_Query"
  http_NewRequest :: "string \<Rightarrow> string \<Rightarrow> error + Request"
  httpClient_Do :: "Request \<Rightarrow> error + http_Response"
  json_Unmarshal_any :: "string \<Rightarrow> error + any"
  gojq_Run :: "gojq_Query \<Rightarrow> any \<Rightarrow> any list"

section \<open>Decoding a job\<close>

text \<open>\<^verbatim>\<open>var healthcheck HealthcheckQuery\<close>: the zero value.\<close>

definition zero_HealthcheckQuery :: HealthcheckQuery where
  "zero_HealthcheckQuery =
     \<lparr>Id = 0, Url = [], Method = [], ExpectedStatus = 0, Frequency = 0,
      JqQuery = \<lparr>Query = None, Expectation = []\<rparr>\<rparr>"

text \<open>
  \<^verbatim>\<open>UnmarshalJSON\<close>. The error of \<^verbatim>\<open>json.Unmarshal\<close> is overwritten by the
  result of \<^verbatim>\<open>time.ParseDuration\<close> before it is looked at; \<^verbatim>\<open>h.Id\<close> is never
  assigned. On an error \<^verbatim>\<open>time.ParseDuration\<close> returns the duration 0.
\<close>

definition UnmarshalJSON ::
  "lib \<Rightarrow> string \<Rightarrow> HealthcheckQuery \<Rightarrow> error option \<times> HealthcheckQuery" where
  "UnmarshalJSON L data h0 =
     (let (err0, d) = json_Unmarshal_d L data;
          h1 = h0\<lparr>Url := d_Url d\<rparr>;
          h2 = h1\<lparr>Method := d_Method d\<rparr>;
          h3 = h2\<lparr>ExpectedStatus := d_ExpectedStatus d\<rparr>
      in case ParseDuration L (d_Frequency d) of
           Inl err \<Rightarrow> (Some err, h3\<lparr>Frequency := 0\<rparr>)
         | Inr f \<Rightarrow>
             (let h4 = h3\<lparr>Frequency := f\<rparr>
              in case d_JqQuery d of
                   None \<Rightarrow> (None, h4\<lparr>JqQuery := (JqQuery h4)\<lparr>Query := None\<rparr>\<rparr>)
                 | Some mq \<Rightarrow>
                     (case gojq_Parse L (mq_Query mq) of
                        Inl err \<Rightarrow> (Some err, h4)
                      | Inr q \<Rightarrow>
                          (None, h4\<lparr>JqQuery :=
                                      \<lparr>Query = Some q, Expectation = mq_Expectation mq\<rparr>\<rparr>))))"

text \<open>\<^verbatim>\<open>json.NewDecoder(r.Body).Decode(&healthcheck)\<close>.\<close>

definition Decode ::
  "lib \<Rightarrow> string \<Rightarrow> HealthcheckQuery \<Rightarrow> error option \<times> HealthcheckQuery" where
  "Decode L body h0 =
     (case Decoder_readValue L body of
        Inl err \<Rightarrow> (Some err, h0)
      | Inr data \<Rightarrow> UnmarshalJSON L data h0)"

section \<open>The control surface\<close>

text \<open>
  What a handler sends: a status and the value given to \<^verbatim>\<open>Encode\<close>
  (\<^verbatim>\<open>MarshalJSON\<close> writes every field of a job); or nothing, when the handler panics
  before \<^verbatim>\<open>WriteHeader\<close> and \<^verbatim>\<open>net/http\<close> drops the connection.
\<close>

datatype body = NoBody | EncodedJob HealthcheckQuery | EncodedJobs "HealthcheckQuery list"

datatype response = Response nat body | Aborted string

definition StatusOK :: nat where "StatusOK = 200"
definition StatusCreated :: nat where "StatusCreated = 201"
definition StatusNoContent :: nat where "StatusNoContent = 204"
definition StatusBadRequest :: nat where "StatusBadRequest = 400"
definition StatusNotFound :: nat where "StatusNotFound = 404"

definition handleGetAllJobs :: "HealthcheckServer \<Rightarrow> response" where
  "handleGetAllJobs h =
     Response StatusOK (EncodedJobs (map (\<lambda>(k, job). healthcheck job) (healthchecks h)))"

definition handleAddJob ::
  "lib \<Rightarrow> string \<Rightarrow> HealthcheckServer \<Rightarrow> response \<times> HealthcheckServer" where
  "handleAddJob L body h =
     (case Decode L body zero_HealthcheckQuery of
        (Some err, healthcheck') \<Rightarrow> (Response StatusBadRequest NoBody, h)
      | (None, healthcheck') \<Rightarrow>
          (case AddHealthcheck healthcheck' h of
             (Panicked msg, h') \<Rightarrow> (Aborted msg, h')
           | (Returned newId, h') \<Rightarrow>
               (Response StatusCreated (EncodedJob (healthcheck'\<lparr>Id := newId\<rparr>)), h')))"

definition handleGetJob :: "healthcheckId \<Rightarrow> HealthcheckServer \<Rightarrow> response" where
  "handleGetJob jobId h =
     (case map_of (healthchecks h) jobId of
        None \<Rightarrow> Response StatusNotFound NoBody
      | Some job \<Rightarrow> Response StatusOK (EncodedJob (healthcheck job)))"

definition handleDeleteJob ::
  "healthcheckId \<Rightarrow> HealthcheckServer \<Rightarrow> response \<times> HealthcheckServer" where
  "handleDeleteJob jobId h =
     (case StopHealthcheck jobId h of
        (Panicked msg, h') \<Rightarrow> (Aborted msg, h')
      | (Returned u, h') \<Rightarrow> (Response StatusNoContent NoBody, h'))"

text \<open>
  \<^verbatim>\<open>handlePutJob\<close>: \<^verbatim>\<open>healthcheck.Id = jobId\<close> is assigned to the handler's copy
  after \<^verbatim>\<open>UpdateHealthcheck\<close> has returned.
\<close>

definition handlePutJob ::
  "lib \<Rightarrow> healthcheckId \<Rightarrow> string \<Rightarrow> HealthcheckServer \<Rightarrow> response \<times> HealthcheckServer" where
  "handlePutJob L jobId body h =
     (case Decode L body zero_HealthcheckQuery of
        (Some err, healthcheck') \<Rightarrow> (Response StatusBadRequest NoBody, h)
      | (None, healthcheck') \<Rightarrow>
          (case UpdateHealthcheck jobId healthcheck' h of
             (Panicked msg, h') \<Rightarrow> (Aborted msg, h')
           | (Returned u, h') \<Rightarrow>
               (Response StatusOK (EncodedJob (healthcheck'\<lparr>Id := jobId\<rparr>)), h')))"

section \<open>The verifier\<close>

record HealthcheckResponse =
  Status :: bool

text \<open>
  \<^verbatim>\<open>checkJSON\<close>. \<^verbatim>\<open>h.JqQuery.Query.Run\<close> dereferences the query: on a
  \<^verbatim>\<open>nil\<close> query it panics. \<^verbatim>\<open>iter.Next()\<close> is called once, which takes the
  head of the sequence of results; \<^verbatim>\<open>v\<close> is an \<^verbatim>\<open>interface{}\<close>, equal to the
  string \<^verbatim>\<open>h.JqQuery.Expectation\<close> only when it holds a string with the same
  contents.
\<close>

definition checkJSON :: "lib \<Rightarrow> HealthcheckQuery \<Rightarrow> http_Response \<Rightarrow> error option outcome" where
  "checkJSON L h resp =
     (case Body resp of
        Inl err \<Rightarrow> Returned (Some ''Error reading response body'')
      | Inr body \<Rightarrow>
          (case json_Unmarshal_any L body of
             Inl err \<Rightarrow> Returned (Some ''Error deserializing response body'')
           | Inr data \<Rightarrow>
               (case Query (JqQuery h) of
                  None \<Rightarrow> Panicked ''nil pointer dereference''
                | Some q \<Rightarrow>
                    (case gojq_Run L q data of
                       [] \<Rightarrow> Returned (Some ''Error parsing response body'')
                     | v # rest \<Rightarrow>
                         (if v \<noteq> AnyString (Expectation (JqQuery h))
                          then Returned (Some ''Expectation failed'')
                          else Returned None)))))"

text \<open>\<^verbatim>\<open>check\<close>; \<^verbatim>\<open>http.MethodGet\<close> is the string \<^verbatim>\<open>GET\<close>.\<close>

definition MethodGet :: string where "MethodGet = ''GET''"

definition check :: "lib \<Rightarrow> HealthcheckQuery \<Rightarrow> HealthcheckResponse outcome" where
  "check L h =
     (if Method h \<noteq> MethodGet then Returned \<lparr>Status = False\<rparr>
      else case http_NewRequest L (Method h) (Url h) of
             Inl err \<Rightarrow> Returned \<lparr>Status = False\<rparr>
           | Inr req0 \<Rightarrow>
               (let req = req0\<lparr>req_Header := req_Header req0 @ [(''Accept'', ''application/json'')]\<rparr>
                in case httpClient_Do L req of
                     Inl err \<Rightarrow> Returned \<lparr>Status = False\<rparr>
                   | Inr resp \<Rightarrow>
                       (if StatusCode resp \<noteq> ExpectedStatus h then Returned \<lparr>Status = False\<rparr>
                        else if StatusCode resp \<noteq> ExpectedStatus h then Returned \<lparr>Status = False\<rparr>
                        else if Query (JqQuery h) \<noteq> None
                          then (case checkJSON L h resp of
                                  Panicked msg \<Rightarrow> Panicked msg
                                | Returned (Some err) \<Rightarrow> Returned \<lparr>Status = False\<rparr>
                                | Returned None \<Rightarrow> Returned \<lparr>Status = True\<rparr>)
                          else Returned \<lparr>Status = True\<rparr>)))"

section \<open>Runs of the registry\<close>

text \<open>
  A run is a sequence of calls of the three mutating operations, made one after the other.
  A call that panics is recovered by \<^verbatim>\<open>net/http\<close>; the run goes on from the state
  the call had reached.
\<close>

datatype call =
    AddCall HealthcheckQuery
  | UpdateCall healthcheckId HealthcheckQuery
  | StopCall healthcheckId

fun call_step :: "call \<Rightarrow> HealthcheckServer \<Rightarrow> HealthcheckServer" where
  "call_step (AddCall q) h = snd (AddHealthcheck q h)"
| "call_step (UpdateCall i q) h = snd (UpdateHealthcheck i q h)"
| "call_step (StopCall i) h = snd (StopHealthcheck i h)"

fun run :: "call list \<Rightarrow> HealthcheckServer \<Rightarrow> HealthcheckServer" where
  "run [] h = h"
| "run (c # cs) h = run cs (call_step c h)"

text \<open>The number of calls of \<^verbatim>\<open>AddHealthcheck\<close> in a run.\<close>

fun adds :: "call list \<Rightarrow> nat" where
  "adds [] = 0"
| "adds (AddCall q # cs) = Suc (adds cs)"
| "adds (c # cs) = adds cs"

text \<open>The number of calls of \<^verbatim>\<open>UpdateHealthcheck\<close> in a run.\<close>

fun updates :: "call list \<Rightarrow> nat" where
  "updates [] = 0"
| "updates (UpdateCall i q # cs) = Suc (updates cs)"
| "updates (c # cs) = updates cs"

text \<open>The ids that the calls of \<^verbatim>\<open>AddHealthcheck\<close> return during a run, oldest first.\<close>

fun ids_assigned :: "call list \<Rightarrow> HealthcheckServer \<Rightarrow> healthcheckId list" where
  "ids_assigned [] h = []"
| "ids_assigned (AddCall q # cs) h =
     (case AddHealthcheck q h of
        (Returned i, h') \<Rightarrow> i # ids_assigned cs h'
      | (Panicked msg, h') \<Rightarrow> ids_assigned cs h')"
| "ids_assigned (c # cs) h = ids_assigned cs (call_step c h)"

text \<open>
  The state of the stop channels: every job of the map holds an open channel, no two jobs
  hold the same channel, and no key occurs twice.
\<close>

definition quits_open :: "HealthcheckServer \<Rightarrow> bool" where
  "quits_open h \<longleftrightarrow>
     (\<forall>k job. map_of (healthchecks h) k = Some job \<longrightarrow>
        quit job < length (chans h) \<and> \<not> chans h ! quit job)"

definition quits_apart :: "HealthcheckServer \<Rightarrow> bool" where
  "quits_apart h \<longleftrightarrow>
     (\<forall>k k' job job'. map_of (healthchecks h) k = Some job \<and>
        map_of (healthchecks h) k' = Some job' \<and> quit job = quit job' \<longrightarrow> k = k')"

definition registry_ok :: "HealthcheckServer \<Rightarrow> bool" where
  "registry_ok h \<longleftrightarrow>
     quits_open h \<and> quits_apart h \<and> distinct (map fst (healthchecks h))"

text \<open>Every job of the map carries its key in its id field.\<close>

definition ids_are_keys :: "HealthcheckServer \<Rightarrow> bool" where
  "ids_are_keys h \<longleftrightarrow>
     (\<forall>k job. map_of (healthchecks h) k = Some job \<longrightarrow> Id (healthcheck job) = k)"

section \<open>Example requests\<close>

text \<open>
  Request bodies, and the values of the library functions on them. The tables give what
  the libraries return on the arguments that occur in the examples below; on any other
  argument they answer with an error.
\<close>

definition body_job_a :: string where
  \<open>body_job_a = ''{"url":"https://a.test","method":"GET","expected_status":200,"frequency":"2m"}''\<close>

definition body_job_b :: string where
  \<open>body_job_b = ''{"url":"https://b.test","method":"GET","expected_status":200,"frequency":"30s","jq_query":{"query":".[]","expectation":"up"}}''\<close>

definition body_post :: string where
  \<open>body_post = ''{"url":"https://a.test","method":"POST","expected_status":200,"frequency":"2m"}''\<close>

definition body_with_id :: string where
  \<open>body_with_id = ''{"id":7,"url":"https://a.test","method":"GET","expected_status":200,"frequency":"2m"}''\<close>

definition body_zero_frequency :: string where
  \<open>body_zero_frequency = ''{"url":"https://a.test","method":"GET","expected_status":200,"frequency":"0s"}''\<close>

definition body_bad_frequency :: string where
  \<open>body_bad_frequency = ''{"url":"https://a.test","method":"GET","expected_status":200,"frequency":"soon"}''\<close>

definition body_bad_query :: string where
  \<open>body_bad_query = ''{"url":"https://b.test","method":"GET","expected_status":200,"frequency":"30s","jq_query":{"query":".[","expectation":"up"}}''\<close>

definition body_truncated :: string where
  \<open>body_truncated = ''{"url":''\<close>

definition d_job :: "string \<Rightarrow> string \<Rightarrow> string \<Rightarrow> marshalledJqQuery option \<Rightarrow> d_struct" where
  "d_job u m f q =
     \<lparr>d_Url = u, d_Method = m, d_ExpectedStatus = 200, d_Frequency = f, d_JqQuery = q\<rparr>"

definition example_Unmarshal_d :: "string \<Rightarrow> error option \<times> d_struct" where
  "example_Unmarshal_d data =
     (if data = body_job_a then (None, d_job ''https://a.test'' ''GET'' ''2m'' None)
      else if data = body_job_b then
        (None, d_job ''https://b.test'' ''GET'' ''30s''
                 (Some \<lparr>mq_Query = ''.[]'', mq_Expectation = ''up''\<rparr>))
      else if data = body_post then (None, d_job ''https://a.test'' ''POST'' ''2m'' None)
      else if data = body_with_id then (None, d_job ''https://a.test'' ''GET'' ''2m'' None)
      else if data = body_zero_frequency then
        (None, d_job ''https://a.test'' ''GET'' ''0s'' None)
      else if data = body_bad_frequency then
        (None, d_job ''https://a.test'' ''GET'' ''soon'' None)
      else if data = body_bad_query then
        (None, d_job ''https://b.test'' ''GET'' ''30s''
                 (Some \<lparr>mq_Query = ''.['', mq_Expectation = ''up''\<rparr>))
      else (Some ''json: cannot unmarshal'',
            \<lparr>d_Url = [], d_Method = [], d_ExpectedStatus = 0, d_Frequency = [],
             d_JqQuery = None\<rparr>))"

definition example_ParseDuration :: "string \<Rightarrow> error + Duration" where
  "example_ParseDuration s =
     (if s = ''2m'' then Inr 120000000000
      else if s = ''30s'' then Inr 30000000000
      else if s = ''0s'' then Inr 0
      else Inl ''time: invalid duration'')"

text \<open>
  The network of the examples: \<^verbatim>\<open>https://a.test\<close> answers 200 with a page that is
  not JSON, \<^verbatim>\<open>https://b.test\<close> answers 200 with a JSON object of two members,
  \<^verbatim>\<open>https://c.test\<close> answers 500, \<^verbatim>\<open>https://d.test\<close> answers 200 with an empty
  JSON object, \<^verbatim>\<open>https://e.test\<close> answers 200 and breaks off while the body is read;
  no other host exists. The query \<^verbatim>\<open>.[]\<close> yields the values of an
  object's members.
\<close>

definition example_Do :: "Request \<Rightarrow> error + http_Response" where
  \<open>example_Do req =
     (if req_Url req = ''https://a.test'' then Inr \<lparr>StatusCode = 200, Body = Inr ''<html>''\<rparr>
      else if req_Url req = ''https://b.test''
        then Inr \<lparr>StatusCode = 200, Body = Inr ''{"a":"up","b":"down"}''\<rparr>
      else if req_Url req = ''https://c.test'' then Inr \<lparr>StatusCode = 500, Body = Inr []\<rparr>
      else if req_Url req = ''https://d.test'' then Inr \<lparr>StatusCode = 200, Body = Inr ''{}''\<rparr>
      else if req_Url req = ''https://e.test''
        then Inr \<lparr>StatusCode = 200, Body = Inl ''connection reset by peer''\<rparr>
      else Inl ''no such host'')\<close>

definition example_Unmarshal_any :: "string \<Rightarrow> error + any" where
  \<open>example_Unmarshal_any b =
     (if b = ''{"a":"up","b":"down"}''
        then Inr (AnyObject [(''a'', AnyString ''up''), (''b'', AnyString ''down'')])
      else if b = ''{}'' then Inr (AnyObject [])
      else Inl ''invalid character'')\<close>

definition example_Run :: "gojq_Query \<Rightarrow> any \<Rightarrow> any list" where
  "example_Run q data =
     (case data of
        AnyObject members \<Rightarrow>
          (if q = GojqQuery ''.[]'' then map snd members else [AnyError ''not in the table''])
      | _ \<Rightarrow> [AnyError ''not in the table''])"

definition example_lib :: lib where
  "example_lib =
     \<lparr>Decoder_readValue =
        (\<lambda>body. if body = body_truncated then Inl ''unexpected EOF'' else Inr body),
      json_Unmarshal_d = example_Unmarshal_d,
      ParseDuration = example_ParseDuration,
      gojq_Parse = (\<lambda>s. if s = ''.[]'' then Inr (GojqQuery s) else Inl ''unexpected token''),
      http_NewRequest =
        (\<lambda>m u. if u = ''::'' then Inl ''missing protocol scheme''
               else Inr \<lparr>req_Method = m, req_Url = u, req_Header = []\<rparr>),
      httpClient_Do = example_Do,
      json_Unmarshal_any = example_Unmarshal_any,
      gojq_Run = example_Run\<rparr>"

text \<open>The job that \<open>body_job_a\<close> decodes to, and the state after adding it.\<close>

definition job_a :: HealthcheckQuery where
  "job_a = \<lparr>Id = 0, Url = ''https://a.test'', Method = ''GET'', ExpectedStatus = 200,
            Frequency = 120000000000, JqQuery = \<lparr>Query = None, Expectation = []\<rparr>\<rparr>"

definition server_one_job :: HealthcheckServer where
  "server_one_job = snd (AddHealthcheck job_a NewHealthcheckServer)"

text \<open>The request that \<^verbatim>\<open>check\<close> sends to a URL of the example network.\<close>

definition request_to :: "string \<Rightarrow> Request" where
  "request_to u =
     \<lparr>req_Method = ''GET'', req_Url = u, req_Header = [(''Accept'', ''application/json'')]\<rparr>"

text \<open>The jobs that \<open>body_job_b\<close> and \<open>body_post\<close> decode to.\<close>

definition job_b :: HealthcheckQuery where
  "job_b = \<lparr>Id = 0, Url = ''https://b.test'', Method = ''GET'', ExpectedStatus = 200,
            Frequency = 30000000000,
            JqQuery = \<lparr>Query = Some (GojqQuery ''.[]''), Expectation = ''up''\<rparr>\<rparr>"

definition job_post :: HealthcheckQuery where
  "job_post = job_a\<lparr>Method := ''POST''\<rparr>"

section \<open>The operations, case by case\<close>

lemma AddHealthcheck_panicked:
  "Frequency q \<le>s 0 \<Longrightarrow>
   AddHealthcheck q h =
     (Panicked ''non-positive interval for NewTicker'',
      h\<lparr>nextHealthcheckId := nextHealthcheckId h + 1, chans := chans h @ [False]\<rparr>)"
  by (simp add: AddHealthcheck_def make_chan_def NewTicker_def)

lemma AddHealthcheck_returned:
  "\<not> Frequency q \<le>s 0 \<Longrightarrow>
   AddHealthcheck q h =
     (Returned (nextHealthcheckId h + 1),
      h\<lparr>nextHealthcheckId := nextHealthcheckId h + 1,
        chans := chans h @ [False],
        tickers := tickers h @ [(Frequency q, False)],
        healthchecks :=
          AList.update (nextHealthcheckId h + 1)
            \<lparr>healthcheck = q\<lparr>Id := nextHealthcheckId h + 1\<rparr>,
             quit = length (chans h), ticker = length (tickers h)\<rparr>
            (healthchecks h),
        wg := wg h + 1\<rparr>)"
  by (simp add: AddHealthcheck_def make_chan_def NewTicker_def)

lemma UpdateHealthcheck_absent:
  "map_of (healthchecks h) i = None \<Longrightarrow> UpdateHealthcheck i q h = (Returned (), h)"
  by (simp add: UpdateHealthcheck_def)

lemma UpdateHealthcheck_panicked:
  "map_of (healthchecks h) i = Some job \<Longrightarrow> Frequency q \<le>s 0 \<Longrightarrow>
   UpdateHealthcheck i q h =
     (Panicked ''non-positive interval for NewTicker'', Ticker_Stop (ticker job) h)"
  by (simp add: UpdateHealthcheck_def NewTicker_def)

lemma chans_Ticker_Stop: "chans (Ticker_Stop t h) = chans h"
  by (simp add: Ticker_Stop_def)

lemma healthchecks_Ticker_Stop: "healthchecks (Ticker_Stop t h) = healthchecks h"
  by (simp add: Ticker_Stop_def)

lemma nextHealthcheckId_Ticker_Stop: "nextHealthcheckId (Ticker_Stop t h) = nextHealthcheckId h"
  by (simp add: Ticker_Stop_def)

lemma UpdateHealthcheck_returned:
  "map_of (healthchecks h) i = Some job \<Longrightarrow> \<not> Frequency q \<le>s 0 \<Longrightarrow>
   quit job < length (chans h) \<Longrightarrow> \<not> chans h ! quit job \<Longrightarrow>
   UpdateHealthcheck i q h =
     (Returned (),
      (Ticker_Stop (ticker job) h)
        \<lparr>tickers := tickers (Ticker_Stop (ticker job) h) @ [(Frequency q, False)],
         chans := (chans h)[quit job := True] @ [False],
         wg := wg h + 1,
         healthchecks :=
           AList.update i
             (job\<lparr>healthcheck := q,
                  ticker := length (tickers (Ticker_Stop (ticker job) h)),
                  quit := length (chans h)\<rparr>)
             (healthchecks h)\<rparr>)"
  by (simp add: UpdateHealthcheck_def NewTicker_def close_chan_def make_chan_def
      chans_Ticker_Stop healthchecks_Ticker_Stop) (simp add: Ticker_Stop_def)

lemma StopHealthcheck_absent:
  "map_of (healthchecks h) i = None \<Longrightarrow> StopHealthcheck i h = (Returned (), h)"
  by (simp add: StopHealthcheck_def)

lemma StopHealthcheck_returned:
  "map_of (healthchecks h) i = Some job \<Longrightarrow>
   quit job < length (chans h) \<Longrightarrow> \<not> chans h ! quit job \<Longrightarrow>
   StopHealthcheck i h =
     (Returned (),
      h\<lparr>chans := (chans h)[quit job := True],
        healthchecks := AList.delete i (healthchecks h)\<rparr>)"
  by (simp add: StopHealthcheck_def close_chan_def)

section \<open>The stop channels over a run\<close>

lemma registry_ok_New: "registry_ok NewHealthcheckServer"
  by (simp add: registry_ok_def quits_open_def quits_apart_def NewHealthcheckServer_def)

lemma registry_ok_Add:
  assumes "registry_ok h"
  shows "registry_ok (snd (AddHealthcheck q h))"
proof (cases "Frequency q \<le>s 0")
  case True
  with assms show ?thesis
    by (auto simp: AddHealthcheck_panicked registry_ok_def quits_open_def quits_apart_def
        nth_append less_SucI)
next
  case False
  from assms have op: "quits_open h" and ap: "quits_apart h"
    and di: "distinct (map fst (healthchecks h))"
    by (simp_all add: registry_ok_def)
  let ?h = "snd (AddHealthcheck q h)"
  have m: "map_of (healthchecks ?h) =
      (map_of (healthchecks h))(nextHealthcheckId h + 1 \<mapsto>
         \<lparr>healthcheck = q\<lparr>Id := nextHealthcheckId h + 1\<rparr>,
          quit = length (chans h), ticker = length (tickers h)\<rparr>)"
    using False by (simp add: AddHealthcheck_returned update_conv')
  have c: "chans ?h = chans h @ [False]"
    using False by (simp add: AddHealthcheck_returned)
  have "quits_open ?h"
    unfolding quits_open_def m c using op
    by (auto simp: quits_open_def nth_append less_SucI split: if_splits)
  moreover have "quits_apart ?h"
    unfolding quits_apart_def m using op ap
    by (fastforce simp: quits_open_def quits_apart_def split: if_splits)
  moreover have "distinct (map fst (healthchecks ?h))"
    using False di by (simp add: AddHealthcheck_returned distinct_update)
  ultimately show ?thesis by (simp add: registry_ok_def)
qed

lemma registry_ok_Ticker_Stop: "registry_ok (Ticker_Stop t h) = registry_ok h"
  by (simp add: registry_ok_def quits_open_def quits_apart_def chans_Ticker_Stop
      healthchecks_Ticker_Stop)

lemma registry_ok_Update:
  assumes "registry_ok h"
  shows "registry_ok (snd (UpdateHealthcheck i q h))"
proof (cases "map_of (healthchecks h) i")
  case None
  with assms show ?thesis by (simp add: UpdateHealthcheck_absent)
next
  case (Some job)
  from assms have op: "quits_open h" and ap: "quits_apart h"
    and di: "distinct (map fst (healthchecks h))"
    by (simp_all add: registry_ok_def)
  from op Some have q: "quit job < length (chans h)" "\<not> chans h ! quit job"
    by (auto simp: quits_open_def)
  show ?thesis
  proof (cases "Frequency q \<le>s 0")
    case True
    with Some assms show ?thesis
      by (simp add: UpdateHealthcheck_panicked registry_ok_Ticker_Stop)
  next
    case False
    let ?h = "snd (UpdateHealthcheck i q h)"
    let ?job = "job\<lparr>healthcheck := q,
                  ticker := length (tickers (Ticker_Stop (ticker job) h)),
                  quit := length (chans h)\<rparr>"
    have m: "map_of (healthchecks ?h) = (map_of (healthchecks h))(i \<mapsto> ?job)"
      using Some False q by (simp add: UpdateHealthcheck_returned update_conv')
    have c: "chans ?h = (chans h)[quit job := True] @ [False]"
      using Some False q by (simp add: UpdateHealthcheck_returned)
    have others: "quit job \<noteq> quit job'"
      if "map_of (healthchecks h) k = Some job'" "k \<noteq> i" for k job'
      using that Some ap unfolding quits_apart_def by metis
    have "quits_open ?h"
      unfolding quits_open_def m c using op others
      by (auto simp: quits_open_def nth_append less_SucI split: if_splits)
    moreover have "quits_apart ?h"
      unfolding quits_apart_def m using op ap
      by (fastforce simp: quits_open_def quits_apart_def split: if_splits)
    moreover have "distinct (map fst (healthchecks ?h))"
      using Some False q di by (simp add: UpdateHealthcheck_returned distinct_update)
    ultimately show ?thesis by (simp add: registry_ok_def)
  qed
qed

lemma registry_ok_Stop:
  assumes "registry_ok h"
  shows "registry_ok (snd (StopHealthcheck i h))"
proof (cases "map_of (healthchecks h) i")
  case None
  with assms show ?thesis by (simp add: StopHealthcheck_absent)
next
  case (Some job)
  from assms have op: "quits_open h" and ap: "quits_apart h"
    and di: "distinct (map fst (healthchecks h))"
    by (simp_all add: registry_ok_def)
  from op Some have q: "quit job < length (chans h)" "\<not> chans h ! quit job"
    by (auto simp: quits_open_def)
  let ?h = "snd (StopHealthcheck i h)"
  have m: "map_of (healthchecks ?h) = (map_of (healthchecks h))(i := None)"
    using Some q by (simp add: StopHealthcheck_returned delete_conv')
  have c: "chans ?h = (chans h)[quit job := True]"
    using Some q by (simp add: StopHealthcheck_returned)
  have others: "quit job \<noteq> quit job'"
    if "map_of (healthchecks h) k = Some job'" "k \<noteq> i" for k job'
    using that Some ap unfolding quits_apart_def by metis
  have "quits_open ?h"
    unfolding quits_open_def m c using op others
    by (auto simp: quits_open_def split: if_splits)
  moreover have "quits_apart ?h"
    unfolding quits_apart_def m using ap
    by (auto simp: quits_apart_def split: if_splits)
  moreover have "distinct (map fst (healthchecks ?h))"
    using Some q di by (simp add: StopHealthcheck_returned distinct_delete)
  ultimately show ?thesis by (simp add: registry_ok_def)
qed

lemma registry_ok_call_step: "registry_ok h \<Longrightarrow> registry_ok (call_step c h)"
  by (cases c) (simp_all add: registry_ok_Add registry_ok_Update registry_ok_Stop)

lemma registry_ok_run: "registry_ok h \<Longrightarrow> registry_ok (run cs h)"
  by (induction cs arbitrary: h) (simp_all add: registry_ok_call_step)

section \<open>The example requests, decoded\<close>

lemma Decode_body_job_a: "Decode example_lib body_job_a zero_HealthcheckQuery = (None, job_a)"
  by (simp add: Decode_def UnmarshalJSON_def example_lib_def example_Unmarshal_d_def
      example_ParseDuration_def d_job_def zero_HealthcheckQuery_def job_a_def
      body_job_a_def body_truncated_def)

lemma Decode_body_job_b: "Decode example_lib body_job_b zero_HealthcheckQuery = (None, job_b)"
  by (simp add: Decode_def UnmarshalJSON_def example_lib_def example_Unmarshal_d_def
      example_ParseDuration_def d_job_def zero_HealthcheckQuery_def job_b_def
      body_job_a_def body_job_b_def body_truncated_def)

lemma Decode_body_post: "Decode example_lib body_post zero_HealthcheckQuery = (None, job_post)"
  by (simp add: Decode_def UnmarshalJSON_def example_lib_def example_Unmarshal_d_def
      example_ParseDuration_def d_job_def zero_HealthcheckQuery_def job_a_def job_post_def
      body_job_a_def body_job_b_def body_post_def body_truncated_def)

lemma Decode_body_with_id: "Decode example_lib body_with_id zero_HealthcheckQuery = (None, job_a)"
  by (simp add: Decode_def UnmarshalJSON_def example_lib_def example_Unmarshal_d_def
      example_ParseDuration_def d_job_def zero_HealthcheckQuery_def job_a_def
      body_job_a_def body_truncated_def body_with_id_def body_job_b_def body_post_def)

lemma Frequency_job_a: "\<not> Frequency job_a \<le>s 0"
  by (simp add: job_a_def word_sle_eq)

lemma Frequency_job_b: "\<not> Frequency job_b \<le>s 0"
  by (simp add: job_b_def word_sle_eq)

lemma server_one_job_eq:
  "server_one_job =
     \<lparr>healthchecks = [(1, \<lparr>healthcheck = job_a\<lparr>Id := 1\<rparr>, quit = 0, ticker = 0\<rparr>)],
      wg = 1, nextHealthcheckId = 1, chans = [False],
      tickers = [(120000000000, False)]\<rparr>"
  by (simp add: server_one_job_def AddHealthcheck_returned Frequency_job_a)
     (simp add: NewHealthcheckServer_def job_a_def)

lemma handleAddJob_body_job_a:
  "handleAddJob example_lib body_job_a NewHealthcheckServer =
     (Response StatusCreated (EncodedJob (job_a\<lparr>Id := 1\<rparr>)), server_one_job)"
  by (simp add: handleAddJob_def Decode_body_job_a server_one_job_def
      AddHealthcheck_returned Frequency_job_a)
     (simp add: NewHealthcheckServer_def)

lemma handlePutJob_body_job_b:
  "handlePutJob example_lib 1 body_job_b server_one_job =
     (Response StatusOK (EncodedJob (job_b\<lparr>Id := 1\<rparr>)),
      \<lparr>healthchecks = [(1, \<lparr>healthcheck = job_b, quit = 1, ticker = 1\<rparr>)],
       wg = 2, nextHealthcheckId = 1, chans = [True, False],
       tickers = [(120000000000, True), (30000000000, False)]\<rparr>)"
  by (simp add: handlePutJob_def Decode_body_job_b server_one_job_eq UpdateHealthcheck_def
      Ticker_Stop_def NewTicker_def Frequency_job_b close_chan_def make_chan_def)
     (simp add: job_b_def)

lemma Id_UnmarshalJSON: "Id (snd (UnmarshalJSON L data h0)) = Id h0"
  by (simp add: UnmarshalJSON_def Let_def split: prod.splits sum.splits option.splits)

lemma Id_Decode: "Id (snd (Decode L body h0)) = Id h0"
  by (simp add: Decode_def Id_UnmarshalJSON split: sum.splits)

lemma handleAddJob_body_with_id:
  "handleAddJob example_lib body_with_id NewHealthcheckServer =
     (Response StatusCreated (EncodedJob (job_a\<lparr>Id := 1\<rparr>)), server_one_job)"
  by (simp add: handleAddJob_def Decode_body_with_id server_one_job_def
      AddHealthcheck_returned Frequency_job_a)
     (simp add: NewHealthcheckServer_def)

text \<open>
  A frequency of \<^verbatim>\<open>0s\<close> passes \<^verbatim>\<open>time.ParseDuration\<close>; the job reaches
  \<^verbatim>\<open>AddHealthcheck\<close>, which has incremented the counter when
  \<^verbatim>\<open>time.NewTicker\<close> panics.
\<close>

lemma handleAddJob_body_zero_frequency:
  "handleAddJob example_lib body_zero_frequency NewHealthcheckServer =
     (Aborted ''non-positive interval for NewTicker'',
      NewHealthcheckServer\<lparr>nextHealthcheckId := 1, chans := [False]\<rparr>)"
  by (simp add: handleAddJob_def Decode_def UnmarshalJSON_def example_lib_def
      example_Unmarshal_d_def example_ParseDuration_def d_job_def zero_HealthcheckQuery_def
      body_job_a_def body_job_b_def body_post_def body_with_id_def body_zero_frequency_def
      body_truncated_def AddHealthcheck_panicked)
     (simp add: NewHealthcheckServer_def)

section \<open>The example network\<close>

lemma example_NewRequest:
  "u \<noteq> ''::'' \<Longrightarrow>
   http_NewRequest example_lib ''GET'' u =
     Inr \<lparr>req_Method = ''GET'', req_Url = u, req_Header = []\<rparr>"
  by (simp add: example_lib_def)

lemma example_Do_a:
  "httpClient_Do example_lib (request_to ''https://a.test'') =
     Inr \<lparr>StatusCode = 200, Body = Inr ''<html>''\<rparr>"
  by (simp add: example_lib_def example_Do_def request_to_def)

lemma example_Do_b:
  \<open>httpClient_Do example_lib (request_to ''https://b.test'') =
     Inr \<lparr>StatusCode = 200, Body = Inr ''{"a":"up","b":"down"}''\<rparr>\<close>
  by (simp add: example_lib_def example_Do_def request_to_def)

lemma example_Do_c:
  "httpClient_Do example_lib (request_to ''https://c.test'') =
     Inr \<lparr>StatusCode = 500, Body = Inr []\<rparr>"
  by (simp add: example_lib_def example_Do_def request_to_def)

lemma example_Do_d:
  "httpClient_Do example_lib (request_to ''https://d.test'') =
     Inr \<lparr>StatusCode = 200, Body = Inr ''{}''\<rparr>"
  by (simp add: example_lib_def example_Do_def request_to_def)

lemma example_Do_e:
  "httpClient_Do example_lib (request_to ''https://e.test'') =
     Inr \<lparr>StatusCode = 200, Body = Inl ''connection reset by peer''\<rparr>"
  by (simp add: example_lib_def example_Do_def request_to_def)

lemma example_Do_nowhere:
  "httpClient_Do example_lib (request_to ''https://nowhere.test'') = Inl ''no such host''"
  by (simp add: example_lib_def example_Do_def request_to_def)

lemma example_Unmarshal_any_b:
  \<open>json_Unmarshal_any example_lib ''{"a":"up","b":"down"}'' =
     Inr (AnyObject [(''a'', AnyString ''up''), (''b'', AnyString ''down'')])\<close>
  by (simp add: example_lib_def example_Unmarshal_any_def)

lemma example_Unmarshal_any_d:
  "json_Unmarshal_any example_lib ''{}'' = Inr (AnyObject [])"
  by (simp add: example_lib_def example_Unmarshal_any_def)

lemma example_Unmarshal_any_a:
  "json_Unmarshal_any example_lib ''<html>'' = Inl ''invalid character''"
  by (simp add: example_lib_def example_Unmarshal_any_def)

lemma example_Run_members:
  "gojq_Run example_lib (GojqQuery ''.[]'') (AnyObject members) = map snd members"
  by (simp add: example_lib_def example_Run_def)

section \<open>The counter over a run\<close>

lemma nextHealthcheckId_Add:
  "nextHealthcheckId (snd (AddHealthcheck q h)) = nextHealthcheckId h + 1"
  by (cases "Frequency q \<le>s 0") (simp_all add: AddHealthcheck_panicked AddHealthcheck_returned)

lemma nextHealthcheckId_Update:
  "nextHealthcheckId (snd (UpdateHealthcheck i q h)) = nextHealthcheckId h"
  by (simp add: UpdateHealthcheck_def NewTicker_def close_chan_def make_chan_def
      Ticker_Stop_def Let_def split: option.splits)

lemma nextHealthcheckId_Stop:
  "nextHealthcheckId (snd (StopHealthcheck i h)) = nextHealthcheckId h"
  by (simp add: StopHealthcheck_def close_chan_def split: option.splits)

lemma nextHealthcheckId_run:
  "nextHealthcheckId (run cs h) = nextHealthcheckId h + of_nat (adds cs)"
proof (induction cs arbitrary: h)
  case Nil
  show ?case by simp
next
  case (Cons c cs)
  show ?case
    by (cases c)
      (simp_all add: Cons.IH nextHealthcheckId_Add nextHealthcheckId_Update
        nextHealthcheckId_Stop)
qed

lemma ids_assigned_shape:
  "\<exists>ns. ids_assigned cs h = map (\<lambda>n. nextHealthcheckId h + of_nat n) ns \<and>
        sorted_wrt (<) ns \<and> set ns \<subseteq> {1..adds cs}"
proof (induction cs arbitrary: h)
  case Nil
  show ?case by simp
next
  case (Cons c cs)
  show ?case
  proof (cases c)
    case (AddCall q)
    let ?h = "snd (AddHealthcheck q h)"
    from Cons.IH [of ?h] obtain ns where
      ns: "ids_assigned cs ?h = map (\<lambda>n. nextHealthcheckId ?h + of_nat n) ns"
        "sorted_wrt (<) ns" "set ns \<subseteq> {1..adds cs}"
      by blast
    have shift: "map (\<lambda>n. nextHealthcheckId ?h + of_nat n) ns =
        map (\<lambda>n. nextHealthcheckId h + of_nat n) (map Suc ns)"
      by (simp add: nextHealthcheckId_Add add.assoc add.commute)
    have sorted: "sorted_wrt (<) (map Suc ns)"
      using ns(2) by (simp add: sorted_wrt_map)
    have bound: "set (map Suc ns) \<subseteq> {2..Suc (adds cs)}"
      using ns(3) by auto
    show ?thesis
    proof (cases "Frequency q \<le>s 0")
      case True
      have "ids_assigned (c # cs) h = map (\<lambda>n. nextHealthcheckId h + of_nat n) (map Suc ns)"
        using True AddCall ns(1) shift by (simp add: AddHealthcheck_panicked)
      moreover have "set (map Suc ns) \<subseteq> {1..adds (c # cs)}"
        using bound AddCall by auto
      ultimately show ?thesis using sorted by blast
    next
      case False
      have "ids_assigned (c # cs) h =
          map (\<lambda>n. nextHealthcheckId h + of_nat n) (1 # map Suc ns)"
        using False AddCall ns(1) shift by (simp add: AddHealthcheck_returned)
      moreover have "set (1 # map Suc ns) \<subseteq> {1..adds (c # cs)}"
        using bound AddCall by auto
      moreover have "sorted_wrt (<) (1 # map Suc ns)"
        using sorted bound by auto
      ultimately show ?thesis by blast
    qed
  next
    case (UpdateCall i q)
    with Cons.IH [of "snd (UpdateHealthcheck i q h)"] show ?thesis
      by (simp add: nextHealthcheckId_Update)
  next
    case (StopCall i)
    with Cons.IH [of "snd (StopHealthcheck i h)"] show ?thesis
      by (simp add: nextHealthcheckId_Stop)
  qed
qed

lemma positive_id: "0 < n \<Longrightarrow> n < 2 ^ 63 \<Longrightarrow> (0 :: 64 word) <s of_nat n"
  by (simp add: word_sless_alt signed_of_nat signed_take_bit_int_eq_self)

lemma inj_on_ids: "inj_on (of_nat :: nat \<Rightarrow> 64 word) {n. n < 2 ^ 63}"
  by (rule inj_onI) (simp add: word_of_nat_eq_iff take_bit_nat_eq_self)

lemma ids_assigned_replicate:
  "\<not> Frequency q \<le>s 0 \<Longrightarrow>
   ids_assigned (replicate n (AddCall q)) h =
     map (\<lambda>k. nextHealthcheckId h + of_nat k) [Suc 0..<Suc n]"
proof (induction n arbitrary: h)
  case 0
  show ?case by simp
next
  case (Suc n)
  have "map (\<lambda>k. nextHealthcheckId h + 1 + of_nat k) [Suc 0..<Suc n] =
      map (\<lambda>k. nextHealthcheckId h + of_nat k) (map Suc [Suc 0..<Suc n])"
    by (simp add: add.assoc add.commute)
  also have "map Suc [Suc 0..<Suc n] = [Suc (Suc 0)..<Suc (Suc n)]"
    by (simp only: map_Suc_upt)
  finally have "map (\<lambda>k. nextHealthcheckId h + 1 + of_nat k) [Suc 0..<Suc n] =
      map (\<lambda>k. nextHealthcheckId h + of_nat k) [Suc (Suc 0)..<Suc (Suc n)]" .
  then show ?case
    using Suc by (simp add: AddHealthcheck_returned upt_conv_Cons del: upt_Suc)
qed

lemma last_ids_assigned_replicate:
  "\<not> Frequency q \<le>s 0 \<Longrightarrow> 0 < n \<Longrightarrow>
   last (ids_assigned (replicate n (AddCall q)) h) = nextHealthcheckId h + of_nat n"
  by (simp add: ids_assigned_replicate last_map del: upt_Suc)

lemma adds_replicate: "adds (replicate n (AddCall q)) = n"
  by (induction n) simp_all

section \<open>Calls in a state that a run has reached\<close>

lemma registry_ok_reached: "registry_ok (run cs NewHealthcheckServer)"
  by (rule registry_ok_run [OF registry_ok_New])

lemma StopHealthcheck_never_panics:
  "quits_open h \<Longrightarrow> fst (StopHealthcheck i h) = Returned ()"
  by (cases "map_of (healthchecks h) i")
    (auto simp: StopHealthcheck_absent StopHealthcheck_returned quits_open_def)

lemma UpdateHealthcheck_panics_in_NewTicker_only:
  "quits_open h \<Longrightarrow>
   fst (UpdateHealthcheck i s h) = Returned () \<or>
   Frequency s \<le>s 0 \<and>
   fst (UpdateHealthcheck i s h) = Panicked ''non-positive interval for NewTicker''"
  by (cases "map_of (healthchecks h) i"; cases "Frequency s \<le>s 0")
    (auto simp: UpdateHealthcheck_absent UpdateHealthcheck_returned
      UpdateHealthcheck_panicked quits_open_def)

lemma map_of_server_one_job:
  "map_of (healthchecks server_one_job) 1 =
     Some \<lparr>healthcheck = job_a\<lparr>Id := 1\<rparr>, quit = 0, ticker = 0\<rparr>"
  "map_of (healthchecks server_one_job) 7 = None"
  by (simp_all add: server_one_job_eq)

lemma handleDeleteJob_absent:
  "map_of (healthchecks h) i = None \<Longrightarrow>
   handleDeleteJob i h = (Response StatusNoContent NoBody, h)"
  by (simp add: handleDeleteJob_def StopHealthcheck_absent)

lemma handleDeleteJob_present:
  "map_of (healthchecks h) i = Some job \<Longrightarrow>
   quit job < length (chans h) \<Longrightarrow> \<not> chans h ! quit job \<Longrightarrow>
   handleDeleteJob i h =
     (Response StatusNoContent NoBody,
      h\<lparr>chans := (chans h)[quit job := True],
        healthchecks := AList.delete i (healthchecks h)\<rparr>)"
  by (simp add: handleDeleteJob_def StopHealthcheck_returned)

section \<open>The id field of the stored jobs\<close>

lemma ids_are_keys_Add: "ids_are_keys h \<Longrightarrow> ids_are_keys (snd (AddHealthcheck q h))"
  by (cases "Frequency q \<le>s 0")
    (auto simp: AddHealthcheck_panicked AddHealthcheck_returned ids_are_keys_def update_conv')

lemma ids_are_keys_Stop: "ids_are_keys h \<Longrightarrow> ids_are_keys (snd (StopHealthcheck i h))"
  by (auto simp: StopHealthcheck_def close_chan_def ids_are_keys_def delete_conv'
      split: option.splits if_splits)

lemma ids_are_keys_run:
  "ids_are_keys h \<Longrightarrow> updates cs = 0 \<Longrightarrow> ids_are_keys (run cs h)"
proof (induction cs arbitrary: h)
  case Nil
  then show ?case by simp
next
  case (Cons c cs)
  then show ?case
    by (cases c) (simp_all add: ids_are_keys_Add ids_are_keys_Stop)
qed

lemma ids_are_keys_New: "ids_are_keys NewHealthcheckServer"
  by (simp add: ids_are_keys_def NewHealthcheckServer_def)

text \<open>
  An update stores the job it is given. Through \<^verbatim>\<open>handlePutJob\<close> that is the job
  as decoded, whose id is 0.
\<close>

lemma UpdateHealthcheck_stores:
  "map_of (healthchecks h) i = Some job \<Longrightarrow>
   UpdateHealthcheck i q h = (Returned (), h') \<Longrightarrow>
   \<exists>job'. map_of (healthchecks h') i = Some job' \<and> healthcheck job' = q"
  by (auto simp: UpdateHealthcheck_def NewTicker_def close_chan_def make_chan_def Let_def
      update_conv' split: if_splits)

lemma handlePutJob_stores_id_zero:
  assumes "map_of (healthchecks h) jobId = Some job"
    and "handlePutJob L jobId body h = (Response StatusOK b, h')"
  shows "\<exists>job'. map_of (healthchecks h') jobId = Some job' \<and> Id (healthcheck job') = 0"
proof -
  obtain err q where d: "Decode L body zero_HealthcheckQuery = (err, q)"
    by (cases "Decode L body zero_HealthcheckQuery")
  have "Id q = 0"
    using Id_Decode [of L body zero_HealthcheckQuery] d
    by (simp add: zero_HealthcheckQuery_def)
  moreover have "err = None" "UpdateHealthcheck jobId q h = (Returned (), h')"
    using assms(2) d
    by (auto simp: handlePutJob_def StatusOK_def StatusBadRequest_def
        split: option.splits outcome.splits prod.splits)
  ultimately show ?thesis
    using UpdateHealthcheck_stores [OF assms(1)] by blast
qed

section \<open>Further facts for the examples\<close>

lemma Decode_body_truncated:
  "Decode example_lib body_truncated zero_HealthcheckQuery =
     (Some ''unexpected EOF'', zero_HealthcheckQuery)"
  by (simp add: Decode_def example_lib_def)

text \<open>
  The close of a channel is one-shot: whatever the state, a second close of the same
  channel panics.
\<close>

lemma close_chan_twice:
  "fst (close_chan c (snd (close_chan c h))) = Panicked ''close of closed channel''"
  by (simp add: close_chan_def)


section \<open>Update of an unknown id\<close>

text \<open>
  C1, as the code has it. For an id that is not a key of the map,
  \<^verbatim>\<open>UpdateHealthcheck\<close> returns without a result and leaves the server as it was: the
  map, the stored jobs, the counter, the channels and the tickers. No not-found is
  reported: when the body does not decode, \<^verbatim>\<open>handlePutJob\<close> answers 400; when it
  decodes to a job \<open>q\<close>, \<^verbatim>\<open>handlePutJob\<close> answers 200 with \<open>q\<close> under the
  requested id. In both cases the server is unchanged.
\<close>

theorem C1_update_unknown_id_no_mutation:
  assumes "map_of (healthchecks h) jobId = None"
  shows "UpdateHealthcheck jobId s h = (Returned (), h) \<and>
    (Decode L body zero_HealthcheckQuery = (Some err, q) \<longrightarrow>
       handlePutJob L jobId body h = (Response StatusBadRequest NoBody, h)) \<and>
    (Decode L body zero_HealthcheckQuery = (None, q) \<longrightarrow>
       handlePutJob L jobId body h =
         (Response StatusOK (EncodedJob (q\<lparr>Id := jobId\<rparr>)), h))"
  using assms by (simp add: handlePutJob_def UpdateHealthcheck_absent)

text \<open>
  On the server that holds job 1, for the unknown id 7: the update changes nothing, job 1
  is still stored, a body that is cut off is answered 400 and the body of \<open>job_b\<close> is
  answered 200 with \<open>job_b\<close> under the id 7.
\<close>

theorem C1_update_unknown_id_witness:
  "map_of (healthchecks server_one_job) 7 = None \<and>
   map_of (healthchecks server_one_job) 1 =
     Some \<lparr>healthcheck = job_a\<lparr>Id := 1\<rparr>, quit = 0, ticker = 0\<rparr> \<and>
   UpdateHealthcheck 7 job_b server_one_job = (Returned (), server_one_job) \<and>
   Decode example_lib body_truncated zero_HealthcheckQuery =
     (Some ''unexpected EOF'', zero_HealthcheckQuery) \<and>
   handlePutJob example_lib 7 body_truncated server_one_job =
     (Response StatusBadRequest NoBody, server_one_job) \<and>
   Decode example_lib body_job_b zero_HealthcheckQuery = (None, job_b) \<and>
   handlePutJob example_lib 7 body_job_b server_one_job =
     (Response StatusOK (EncodedJob (job_b\<lparr>Id := 7\<rparr>)), server_one_job)"
proof -
  note absent = map_of_server_one_job(2)
  from C1_update_unknown_id_no_mutation [OF absent, of job_b example_lib body_truncated
      "''unexpected EOF''" zero_HealthcheckQuery] Decode_body_truncated
  have u: "UpdateHealthcheck 7 job_b server_one_job = (Returned (), server_one_job)"
    and bad: "handlePutJob example_lib 7 body_truncated server_one_job =
      (Response StatusBadRequest NoBody, server_one_job)"
    by blast+
  from C1_update_unknown_id_no_mutation [OF absent, of job_b example_lib body_job_b _ job_b] Decode_body_job_b
  have good: "handlePutJob example_lib 7 body_job_b server_one_job =
      (Response StatusOK (EncodedJob (job_b\<lparr>Id := 7\<rparr>)), server_one_job)"
    by blast
  from absent map_of_server_one_job(1) u Decode_body_truncated bad Decode_body_job_b good
  show ?thesis by blast
qed

text \<open>
  The claim as written fails: on the fresh server, where 7 is not a key, a PUT for job 7
  with a body that decodes is answered 200 with the job echoed, not 404.
\<close>

theorem C1_update_unknown_id_counterexample:
  "map_of (healthchecks NewHealthcheckServer) 7 = None \<and>
   handlePutJob example_lib 7 body_job_a NewHealthcheckServer =
     (Response StatusOK (EncodedJob (job_a\<lparr>Id := 7\<rparr>)), NewHealthcheckServer) \<and>
   fst (handlePutJob example_lib 7 body_job_a NewHealthcheckServer) \<noteq>
     Response StatusNotFound NoBody"
  by (simp add: handlePutJob_def Decode_body_job_a UpdateHealthcheck_absent
      NewHealthcheckServer_def StatusOK_def StatusNotFound_def)

section \<open>The id of an updated job\<close>

text \<open>
  C2 says that after an update of job \<open>id\<close> the job read back carries \<open>id\<close> in its id
  field. \<^verbatim>\<open>AddHealthcheck\<close> writes the id into the job before it stores it;
  \<^verbatim>\<open>UpdateHealthcheck\<close> stores the job as it was decoded, with the id 0, and
  \<^verbatim>\<open>handlePutJob\<close> writes the id into its own copy only afterwards, so that every
  PUT for a known id that is answered 200 leaves a job with the id 0 under that key.
  Here a job is created and gets the id 1, a PUT for job 1 is answered with a job of id 1,
  and the job then read back for id 1, alone and in the list, has the id 0.
\<close>

theorem C2_updated_job_reads_back_id_zero:
  "handleAddJob example_lib body_job_a NewHealthcheckServer =
     (Response StatusCreated (EncodedJob (job_a\<lparr>Id := 1\<rparr>)), server_one_job) \<and>
   fst (handlePutJob example_lib 1 body_job_b server_one_job) =
     Response StatusOK (EncodedJob (job_b\<lparr>Id := 1\<rparr>)) \<and>
   handleGetJob 1 (snd (handlePutJob example_lib 1 body_job_b server_one_job)) =
     Response StatusOK (EncodedJob (job_b\<lparr>Id := 0\<rparr>)) \<and>
   handleGetAllJobs (snd (handlePutJob example_lib 1 body_job_b server_one_job)) =
     Response StatusOK (EncodedJobs [job_b\<lparr>Id := 0\<rparr>])"
  by (simp add: handleAddJob_body_job_a handlePutJob_body_job_b handleGetJob_def
      handleGetAllJobs_def) (simp add: job_b_def)

section \<open>The order of a check\<close>

text \<open>
  C3. A check fails when the method is not \<^verbatim>\<open>GET\<close>; otherwise it fails when the
  request cannot be built or cannot be sent; otherwise it fails when the status of the
  response differs from the expected status; otherwise, when the job has no query, it
  passes.
\<close>

theorem C3_check_order:
  "(Method h \<noteq> MethodGet \<longrightarrow> check L h = Returned \<lparr>Status = False\<rparr>) \<and>
   (Method h = MethodGet \<and> http_NewRequest L (Method h) (Url h) = Inl e \<longrightarrow>
      check L h = Returned \<lparr>Status = False\<rparr>) \<and>
   (Method h = MethodGet \<and> http_NewRequest L (Method h) (Url h) = Inr req \<and>
    httpClient_Do L
      (req\<lparr>req_Header := req_Header req @ [(''Accept'', ''application/json'')]\<rparr>) = Inl e \<longrightarrow>
      check L h = Returned \<lparr>Status = False\<rparr>) \<and>
   (Method h = MethodGet \<and> http_NewRequest L (Method h) (Url h) = Inr req \<and>
    httpClient_Do L
      (req\<lparr>req_Header := req_Header req @ [(''Accept'', ''application/json'')]\<rparr>) = Inr resp \<and>
    StatusCode resp \<noteq> ExpectedStatus h \<longrightarrow>
      check L h = Returned \<lparr>Status = False\<rparr>) \<and>
   (Method h = MethodGet \<and> http_NewRequest L (Method h) (Url h) = Inr req \<and>
    httpClient_Do L
      (req\<lparr>req_Header := req_Header req @ [(''Accept'', ''application/json'')]\<rparr>) = Inr resp \<and>
    StatusCode resp = ExpectedStatus h \<and> Query (JqQuery h) = None \<longrightarrow>
      check L h = Returned \<lparr>Status = True\<rparr>)"
  by (auto simp: check_def Let_def)

text \<open>
  In the example network: a job with the method \<^verbatim>\<open>POST\<close>, a job whose URL cannot
  be parsed, a job for a host that does not exist and a job for the host that answers 500
  are down; the job \<open>job_a\<close> is up.
\<close>

theorem C3_check_order_witness:
  "Method job_post \<noteq> MethodGet \<and>
   check example_lib job_post = Returned \<lparr>Status = False\<rparr> \<and>
   http_NewRequest example_lib ''GET'' ''::'' = Inl ''missing protocol scheme'' \<and>
   check example_lib (job_a\<lparr>Url := ''::''\<rparr>) = Returned \<lparr>Status = False\<rparr> \<and>
   httpClient_Do example_lib (request_to ''https://nowhere.test'') = Inl ''no such host'' \<and>
   check example_lib (job_a\<lparr>Url := ''https://nowhere.test''\<rparr>) = Returned \<lparr>Status = False\<rparr> \<and>
   httpClient_Do example_lib (request_to ''https://c.test'') =
     Inr \<lparr>StatusCode = 500, Body = Inr []\<rparr> \<and>
   check example_lib (job_a\<lparr>Url := ''https://c.test''\<rparr>) = Returned \<lparr>Status = False\<rparr> \<and>
   httpClient_Do example_lib (request_to ''https://a.test'') =
     Inr \<lparr>StatusCode = 200, Body = Inr ''<html>''\<rparr> \<and>
   Query (JqQuery job_a) = None \<and>
   check example_lib job_a = Returned \<lparr>Status = True\<rparr>"
proof -
  have p0: "Method job_post \<noteq> MethodGet"
    by (simp add: job_post_def job_a_def MethodGet_def)
  from C3_check_order [of job_post example_lib] p0
  have p1: "check example_lib job_post = Returned \<lparr>Status = False\<rparr>"
    by blast
  have m: "Method (job_a\<lparr>Url := u\<rparr>) = MethodGet" for u
    by (simp add: job_a_def MethodGet_def)
  have ma: "Method job_a = MethodGet"
    by (simp add: job_a_def MethodGet_def)
  have n0: "http_NewRequest example_lib ''GET'' ''::'' = Inl ''missing protocol scheme''"
    by (simp add: example_lib_def)
  have n0': "http_NewRequest example_lib (Method (job_a\<lparr>Url := ''::''\<rparr>))
      (Url (job_a\<lparr>Url := ''::''\<rparr>)) = Inl ''missing protocol scheme''"
    using n0 by (simp add: job_a_def)
  from C3_check_order [of "job_a\<lparr>Url := ''::''\<rparr>" example_lib "''missing protocol scheme''"]
    m n0'
  have p2: "check example_lib (job_a\<lparr>Url := ''::''\<rparr>) = Returned \<lparr>Status = False\<rparr>"
    by blast
  have n: "http_NewRequest example_lib (Method (job_a\<lparr>Url := u\<rparr>)) (Url (job_a\<lparr>Url := u\<rparr>)) =
      Inr \<lparr>req_Method = ''GET'', req_Url = u, req_Header = []\<rparr>" if "u \<noteq> ''::''" for u
    using that by (simp add: job_a_def example_NewRequest)
  have na: "http_NewRequest example_lib (Method job_a) (Url job_a) =
      Inr \<lparr>req_Method = ''GET'', req_Url = ''https://a.test'', req_Header = []\<rparr>"
    by (simp add: job_a_def example_NewRequest)
  have e: "ExpectedStatus (job_a\<lparr>Url := u\<rparr>) = 200" for u
    by (simp add: job_a_def)
  from C3_check_order [of "job_a\<lparr>Url := ''https://nowhere.test''\<rparr>" example_lib
      "''no such host''" "\<lparr>req_Method = ''GET'', req_Url = ''https://nowhere.test'', req_Header = []\<rparr>"]
    m n [of "''https://nowhere.test''"] example_Do_nowhere
  have p3: "check example_lib (job_a\<lparr>Url := ''https://nowhere.test''\<rparr>) =
      Returned \<lparr>Status = False\<rparr>"
    by (simp add: request_to_def)
  from C3_check_order [of "job_a\<lparr>Url := ''https://c.test''\<rparr>" example_lib _
      "\<lparr>req_Method = ''GET'', req_Url = ''https://c.test'', req_Header = []\<rparr>"
      "\<lparr>StatusCode = 500, Body = Inr []\<rparr>"]
    m n [of "''https://c.test''"] example_Do_c e
  have p4: "check example_lib (job_a\<lparr>Url := ''https://c.test''\<rparr>) = Returned \<lparr>Status = False\<rparr>"
    by (simp add: request_to_def)
  have q: "Query (JqQuery job_a) = None"
    by (simp add: job_a_def)
  have ea: "ExpectedStatus job_a = 200"
    by (simp add: job_a_def)
  from C3_check_order [of job_a example_lib _
      "\<lparr>req_Method = ''GET'', req_Url = ''https://a.test'', req_Header = []\<rparr>"
      "\<lparr>StatusCode = 200, Body = Inr ''<html>''\<rparr>"]
    ma na example_Do_a ea q
  have p5: "check example_lib job_a = Returned \<lparr>Status = True\<rparr>"
    by (simp add: request_to_def)
  from p0 p1 n0 p2 example_Do_nowhere p3 example_Do_c p4 example_Do_a q p5
  show ?thesis by simp
qed

section \<open>The check of a query\<close>

text \<open>
  C4. For a job with a query, on a response whose status is the expected one: the check
  fails when the body cannot be read or is not JSON; it fails when the query yields no
  result; otherwise it passes exactly when the first result is the string that the job
  expects, whatever results follow.
\<close>

theorem C4_query_check:
  assumes "Method h = MethodGet"
    and "http_NewRequest L (Method h) (Url h) = Inr req"
    and "httpClient_Do L
           (req\<lparr>req_Header := req_Header req @ [(''Accept'', ''application/json'')]\<rparr>) =
         Inr resp"
    and "StatusCode resp = ExpectedStatus h"
    and "Query (JqQuery h) = Some q"
  shows "(Body resp = Inl e \<longrightarrow> check L h = Returned \<lparr>Status = False\<rparr>) \<and>
   (Body resp = Inr b \<and> json_Unmarshal_any L b = Inl e \<longrightarrow>
      check L h = Returned \<lparr>Status = False\<rparr>) \<and>
   (Body resp = Inr b \<and> json_Unmarshal_any L b = Inr data \<and> gojq_Run L q data = [] \<longrightarrow>
      check L h = Returned \<lparr>Status = False\<rparr>) \<and>
   (Body resp = Inr b \<and> json_Unmarshal_any L b = Inr data \<and>
    gojq_Run L q data = v # rest \<longrightarrow>
      check L h = Returned \<lparr>Status = (v = AnyString (Expectation (JqQuery h)))\<rparr>)"
  using assms by (auto simp: check_def checkJSON_def Let_def)

text \<open>
  In the example network the query \<^verbatim>\<open>.[]\<close> yields \<^verbatim>\<open>up\<close> and then
  \<^verbatim>\<open>down\<close> on the body of \<^verbatim>\<open>https://b.test\<close>: the job that expects
  \<^verbatim>\<open>up\<close> is up, the job that expects \<^verbatim>\<open>down\<close> is down. The jobs with the same
  query for the page that is not JSON, for the empty object and for the body that cannot
  be read are down.
\<close>

theorem C4_query_check_witness:
  \<open>gojq_Run example_lib (GojqQuery ''.[]'')
      (AnyObject [(''a'', AnyString ''up''), (''b'', AnyString ''down'')]) =
     [AnyString ''up'', AnyString ''down''] \<and>
   check example_lib job_b = Returned \<lparr>Status = True\<rparr> \<and>
   check example_lib
     (job_b\<lparr>JqQuery := \<lparr>Query = Some (GojqQuery ''.[]''), Expectation = ''down''\<rparr>\<rparr>) =
     Returned \<lparr>Status = False\<rparr> \<and>
   json_Unmarshal_any example_lib ''<html>'' = Inl ''invalid character'' \<and>
   check example_lib (job_b\<lparr>Url := ''https://a.test''\<rparr>) = Returned \<lparr>Status = False\<rparr> \<and>
   gojq_Run example_lib (GojqQuery ''.[]'') (AnyObject []) = [] \<and>
   check example_lib (job_b\<lparr>Url := ''https://d.test''\<rparr>) = Returned \<lparr>Status = False\<rparr> \<and>
   httpClient_Do example_lib (request_to ''https://e.test'') =
     Inr \<lparr>StatusCode = 200, Body = Inl ''connection reset by peer''\<rparr> \<and>
   check example_lib (job_b\<lparr>Url := ''https://e.test''\<rparr>) = Returned \<lparr>Status = False\<rparr>\<close>
proof -
  let ?down = "job_b\<lparr>JqQuery := \<lparr>Query = Some (GojqQuery ''.[]''), Expectation = ''down''\<rparr>\<rparr>"
  let ?req = "\<lambda>u. \<lparr>req_Method = ''GET'', req_Url = u, req_Header = []\<rparr>"
  have hdr: "(?req u)\<lparr>req_Header := req_Header (?req u) @ [(''Accept'', ''application/json'')]\<rparr> =
      request_to u" for u
    by (simp add: request_to_def)
  have run2: "gojq_Run example_lib (GojqQuery ''.[]'')
      (AnyObject [(''a'', AnyString ''up''), (''b'', AnyString ''down'')]) =
      AnyString ''up'' # [AnyString ''down'']"
    by (simp add: example_Run_members)
  have run0: "gojq_Run example_lib (GojqQuery ''.[]'') (AnyObject []) = []"
    by (simp add: example_Run_members)
  have m: "Method job_b = MethodGet" "Method ?down = MethodGet"
    "Method (job_b\<lparr>Url := u\<rparr>) = MethodGet" for u
    by (simp_all add: job_b_def MethodGet_def)
  have n: "http_NewRequest example_lib (Method job_b) (Url job_b) = Inr (?req ''https://b.test'')"
    "http_NewRequest example_lib (Method ?down) (Url ?down) = Inr (?req ''https://b.test'')"
    by (simp_all add: job_b_def example_NewRequest)
  have nu: "http_NewRequest example_lib (Method (job_b\<lparr>Url := u\<rparr>)) (Url (job_b\<lparr>Url := u\<rparr>)) =
      Inr (?req u)" if "u \<noteq> ''::''" for u
    using that by (simp add: job_b_def example_NewRequest)
  have s: "ExpectedStatus job_b = 200" "ExpectedStatus ?down = 200"
    "ExpectedStatus (job_b\<lparr>Url := u\<rparr>) = 200" for u
    by (simp_all add: job_b_def)
  have q: "Query (JqQuery job_b) = Some (GojqQuery ''.[]'')"
    "Query (JqQuery ?down) = Some (GojqQuery ''.[]'')"
    "Query (JqQuery (job_b\<lparr>Url := u\<rparr>)) = Some (GojqQuery ''.[]'')" for u
    by (simp_all add: job_b_def)
  have x: "Expectation (JqQuery job_b) = ''up''" "Expectation (JqQuery ?down) = ''down''"
    by (simp_all add: job_b_def)
  have "check example_lib job_b =
      Returned \<lparr>Status = (AnyString ''up'' = AnyString (Expectation (JqQuery job_b)))\<rparr>"
    using C4_query_check [OF m(1) n(1), unfolded hdr, OF example_Do_b _ q(1),
        where data = "AnyObject [(''a'', AnyString ''up''), (''b'', AnyString ''down'')]"
          and v = "AnyString ''up''" and rest = "[AnyString ''down'']"]
      s(1) example_Unmarshal_any_b run2
    by simp
  then have p1: "check example_lib job_b = Returned \<lparr>Status = True\<rparr>"
    by (simp add: x)
  have "check example_lib ?down =
      Returned \<lparr>Status = (AnyString ''up'' = AnyString (Expectation (JqQuery ?down)))\<rparr>"
    using C4_query_check [OF m(2) n(2), unfolded hdr, OF example_Do_b _ q(2),
        where data = "AnyObject [(''a'', AnyString ''up''), (''b'', AnyString ''down'')]"
          and v = "AnyString ''up''" and rest = "[AnyString ''down'']"]
      s(2) example_Unmarshal_any_b run2
    by simp
  then have p2: "check example_lib ?down = Returned \<lparr>Status = False\<rparr>"
    by (simp add: x)
  have p3: "check example_lib (job_b\<lparr>Url := ''https://a.test''\<rparr>) = Returned \<lparr>Status = False\<rparr>"
    using C4_query_check [OF m(3) nu, unfolded hdr, OF _ example_Do_a _ q(3),
        where e = "''invalid character''" and b = "''<html>''"]
      s(3) example_Unmarshal_any_a
    by simp
  have p4: "check example_lib (job_b\<lparr>Url := ''https://d.test''\<rparr>) = Returned \<lparr>Status = False\<rparr>"
    using C4_query_check [OF m(3) nu, unfolded hdr, OF _ example_Do_d _ q(3),
        where data = "AnyObject []" and b = "''{}''"]
      s(3) example_Unmarshal_any_d run0
    by simp
  have p5: "check example_lib (job_b\<lparr>Url := ''https://e.test''\<rparr>) = Returned \<lparr>Status = False\<rparr>"
    using C4_query_check [OF m(3) nu, unfolded hdr, OF _ example_Do_e _ q(3),
        where e = "''connection reset by peer''"]
      s(3)
    by simp
  from run2 p1 p2 example_Unmarshal_any_a p3 run0 p4 example_Do_e p5
  show ?thesis by simp
qed

section \<open>Stopping a runner twice\<close>



section \<open>Deleting a job\<close>

text \<open>
  C6. In every state \<open>h\<close> that a run of registry calls reaches from the fresh server,
  and for every id, \<^verbatim>\<open>handleDeleteJob\<close> answers 204. Afterwards the id is not a key
  of the map, every other key has the job it had, and the counter is unchanged. When the
  id was not a key, the server is exactly as before. When it was, the stop channel of its
  job is closed, which ends the job's runner.
\<close>

theorem C6_delete_always_succeeds:
  assumes "h = run cs NewHealthcheckServer"
    and "handleDeleteJob jobId h = (r, h')"
  shows "r = Response StatusNoContent NoBody \<and>
    map_of (healthchecks h') jobId = None \<and>
    (\<forall>k. k \<noteq> jobId \<longrightarrow> map_of (healthchecks h') k = map_of (healthchecks h) k) \<and>
    nextHealthcheckId h' = nextHealthcheckId h \<and>
    (map_of (healthchecks h) jobId = None \<longrightarrow> h' = h) \<and>
    (\<forall>job. map_of (healthchecks h) jobId = Some job \<longrightarrow>
       quit job < length (chans h') \<and> chans h' ! quit job)"
proof (cases "map_of (healthchecks h) jobId")
  case None
  with assms(2) show ?thesis
    by (simp add: handleDeleteJob_absent)
next
  case (Some job)
  have "quits_open h"
    using assms(1) registry_ok_reached [of cs] by (simp add: registry_ok_def)
  with Some have "quit job < length (chans h)" "\<not> chans h ! quit job"
    by (auto simp: quits_open_def)
  with Some assms(2) show ?thesis
    by (auto simp: handleDeleteJob_present delete_conv')
qed

text \<open>
  After one job was added: deleting job 1 answers 204, removes the entry and closes
  channel 0; deleting the unknown job 7 answers 204 and changes nothing.
\<close>

theorem C6_delete_always_succeeds_witness:
  "server_one_job = run [AddCall job_a] NewHealthcheckServer \<and>
   map_of (healthchecks server_one_job) 1 =
     Some \<lparr>healthcheck = job_a\<lparr>Id := 1\<rparr>, quit = 0, ticker = 0\<rparr> \<and>
   fst (handleDeleteJob 1 server_one_job) = Response StatusNoContent NoBody \<and>
   map_of (healthchecks (snd (handleDeleteJob 1 server_one_job))) 1 = None \<and>
   chans (snd (handleDeleteJob 1 server_one_job)) ! 0 \<and>
   map_of (healthchecks server_one_job) 7 = None \<and>
   handleDeleteJob 7 server_one_job = (Response StatusNoContent NoBody, server_one_job)"
proof -
  have r: "server_one_job = run [AddCall job_a] NewHealthcheckServer"
    by (simp add: server_one_job_def)
  have d1: "handleDeleteJob 1 server_one_job =
      (fst (handleDeleteJob 1 server_one_job), snd (handleDeleteJob 1 server_one_job))"
    by simp
  have d7: "handleDeleteJob 7 server_one_job =
      (fst (handleDeleteJob 7 server_one_job), snd (handleDeleteJob 7 server_one_job))"
    by simp
  from C6_delete_always_succeeds [OF r d1] map_of_server_one_job(1)
  have p1: "fst (handleDeleteJob 1 server_one_job) = Response StatusNoContent NoBody \<and>
      map_of (healthchecks (snd (handleDeleteJob 1 server_one_job))) 1 = None \<and>
      chans (snd (handleDeleteJob 1 server_one_job)) ! 0"
    by fastforce
  from C6_delete_always_succeeds [OF r d7] map_of_server_one_job(2)
  have p7: "fst (handleDeleteJob 7 server_one_job) = Response StatusNoContent NoBody \<and>
      snd (handleDeleteJob 7 server_one_job) = server_one_job"
    by blast
  then have "handleDeleteJob 7 server_one_job = (Response StatusNoContent NoBody, server_one_job)"
    by (metis d7)
  with r map_of_server_one_job p1 show ?thesis
    by blast
qed

section \<open>The ids that are assigned\<close>

text \<open>
  C7, as the code has it. The counter is a 64-bit integer that is only ever incremented.
  In every run from the fresh server with fewer than \<open>2\<^sup>6\<^sup>3\<close> calls of
  \<^verbatim>\<open>AddHealthcheck\<close>, whatever updates and deletions it holds besides, the ids that
  the calls return are positive and pairwise distinct, so an id is never handed out a
  second time, deleted or not; no id occurs twice among the keys of the map; and, when
  the run holds no update, every job of the map carries its key in its id field.
\<close>

theorem C7_ids_positive_and_never_reused:
  assumes "adds cs < 2 ^ 63"
  shows "distinct (ids_assigned cs NewHealthcheckServer) \<and>
    (\<forall>i \<in> set (ids_assigned cs NewHealthcheckServer). 0 <s i) \<and>
    distinct (map fst (healthchecks (run cs NewHealthcheckServer))) \<and>
    (updates cs = 0 \<longrightarrow> ids_are_keys (run cs NewHealthcheckServer))"
proof -
  obtain ns where ns: "ids_assigned cs NewHealthcheckServer = map of_nat ns"
      "sorted_wrt (<) ns" "set ns \<subseteq> {1..adds cs}"
    using ids_assigned_shape [of cs NewHealthcheckServer]
    by (auto simp: NewHealthcheckServer_def)
  have small: "n < 2 ^ 63" "0 < n" if "n \<in> set ns" for n
    using that ns(3) assms by auto
  have "distinct ns"
    using ns(2) by (simp add: strict_sorted_iff)
  moreover have "inj_on (of_nat :: nat \<Rightarrow> 64 word) (set ns)"
    using inj_on_ids small by (auto intro: inj_on_subset)
  ultimately have "distinct (ids_assigned cs NewHealthcheckServer)"
    by (simp add: ns(1) distinct_map)
  moreover have "\<forall>i \<in> set (ids_assigned cs NewHealthcheckServer). 0 <s i"
    using small by (auto simp: ns(1) positive_id)
  moreover have "distinct (map fst (healthchecks (run cs NewHealthcheckServer)))"
    using registry_ok_run [OF registry_ok_New, of cs] by (simp add: registry_ok_def)
  moreover have "updates cs = 0 \<longrightarrow> ids_are_keys (run cs NewHealthcheckServer)"
    by (simp add: ids_are_keys_run ids_are_keys_New)
  ultimately show ?thesis by blast
qed

text \<open>
  A job is added, deleted, and a job is added again: the ids are 1 and 2.
\<close>

theorem C7_ids_witness:
  "adds [AddCall job_a, StopCall 1, AddCall job_a] < 2 ^ 63 \<and>
   ids_assigned [AddCall job_a, StopCall 1, AddCall job_a] NewHealthcheckServer = [1, 2] \<and>
   distinct (ids_assigned [AddCall job_a, StopCall 1, AddCall job_a] NewHealthcheckServer) \<and>
   (0 :: 64 word) <s 1 \<and> (0 :: 64 word) <s 2 \<and>
   distinct (map fst (healthchecks
     (run [AddCall job_a, StopCall 1, AddCall job_a] NewHealthcheckServer))) \<and>
   updates [AddCall job_a, StopCall 1, AddCall job_a] = 0 \<and>
   map_of (healthchecks (run [AddCall job_a, StopCall 1, AddCall job_a] NewHealthcheckServer)) 2 =
     Some \<lparr>healthcheck = job_a\<lparr>Id := 2\<rparr>, quit = 1, ticker = 1\<rparr> \<and>
   Id (healthcheck \<lparr>healthcheck = job_a\<lparr>Id := 2\<rparr>, quit = 1, ticker = 1\<rparr>) = 2"
proof -
  have few: "adds [AddCall job_a, StopCall 1, AddCall job_a] < 2 ^ 63"
    by simp
  have none: "updates [AddCall job_a, StopCall 1, AddCall job_a] = 0"
    by simp
  have ids: "ids_assigned [AddCall job_a, StopCall 1, AddCall job_a] NewHealthcheckServer =
      [1, 2]"
    by (simp add: AddHealthcheck_returned Frequency_job_a nextHealthcheckId_Stop)
       (simp add: NewHealthcheckServer_def)
  have job2: "map_of (healthchecks
      (run [AddCall job_a, StopCall 1, AddCall job_a] NewHealthcheckServer)) 2 =
      Some \<lparr>healthcheck = job_a\<lparr>Id := 2\<rparr>, quit = 1, ticker = 1\<rparr>"
    by (simp add: AddHealthcheck_returned Frequency_job_a StopHealthcheck_def close_chan_def
        NewHealthcheckServer_def)
  note inst = C7_ids_positive_and_never_reused [OF few]
  from inst have "\<forall>i \<in> set (ids_assigned [AddCall job_a, StopCall 1, AddCall job_a]
      NewHealthcheckServer). 0 <s i"
    by blast
  then have pos: "(0 :: 64 word) <s 1 \<and> (0 :: 64 word) <s 2"
    unfolding ids by simp
  from inst none
  have "ids_are_keys (run [AddCall job_a, StopCall 1, AddCall job_a] NewHealthcheckServer)"
    by blast
  with job2
  have key: "Id (healthcheck \<lparr>healthcheck = job_a\<lparr>Id := 2\<rparr>, quit = 1, ticker = 1\<rparr>) = 2"
    unfolding ids_are_keys_def by blast
  from few ids inst pos none job2 key show ?thesis
    by blast
qed

text \<open>
  The claim as written fails for longer runs: the \<open>2\<^sup>6\<^sup>3\<close>-th call of
  \<^verbatim>\<open>AddHealthcheck\<close> increments the counter past the largest 64-bit integer and
  returns a negative id.
\<close>

theorem C7_counter_wraps_counterexample:
  "adds (replicate (2 ^ 63) (AddCall job_a)) = 2 ^ 63 \<and>
   last (ids_assigned (replicate (2 ^ 63) (AddCall job_a)) NewHealthcheckServer) = - (2 ^ 63) \<and>
   \<not> 0 <s last (ids_assigned (replicate (2 ^ 63) (AddCall job_a)) NewHealthcheckServer)"
proof -
  have "last (ids_assigned (replicate (2 ^ 63) (AddCall job_a)) NewHealthcheckServer) =
      (of_nat (2 ^ 63) :: 64 word)"
    by (simp add: last_ids_assigned_replicate Frequency_job_a NewHealthcheckServer_def)
  then show ?thesis
    by (simp add: adds_replicate word_sless_alt)
qed

section \<open>Admission of a payload\<close>

text \<open>
  C8, as the code has it. A creation or update payload is answered 400, and the server is
  left as it was, when the body is not JSON, when \<^verbatim>\<open>time.ParseDuration\<close> rejects its
  frequency, or when \<^verbatim>\<open>gojq.Parse\<close> rejects its query. The method is not looked at
  when a payload is admitted.
\<close>

theorem C8_malformed_payload_rejected:
  "(Decoder_readValue L body = Inl e \<longrightarrow>
      handleAddJob L body h = (Response StatusBadRequest NoBody, h) \<and>
      handlePutJob L jobId body h = (Response StatusBadRequest NoBody, h)) \<and>
   (Decoder_readValue L body = Inr data \<and>
    ParseDuration L (d_Frequency (snd (json_Unmarshal_d L data))) = Inl e \<longrightarrow>
      handleAddJob L body h = (Response StatusBadRequest NoBody, h) \<and>
      handlePutJob L jobId body h = (Response StatusBadRequest NoBody, h)) \<and>
   (Decoder_readValue L body = Inr data \<and>
    d_JqQuery (snd (json_Unmarshal_d L data)) = Some mq \<and>
    gojq_Parse L (mq_Query mq) = Inl e \<longrightarrow>
      handleAddJob L body h = (Response StatusBadRequest NoBody, h) \<and>
      handlePutJob L jobId body h = (Response StatusBadRequest NoBody, h))"
  by (auto simp: handleAddJob_def handlePutJob_def Decode_def UnmarshalJSON_def Let_def
      split: prod.splits sum.splits option.splits)

theorem C8_malformed_payload_witness:
  "Decoder_readValue example_lib body_truncated = Inl ''unexpected EOF'' \<and>
   handleAddJob example_lib body_truncated server_one_job =
     (Response StatusBadRequest NoBody, server_one_job) \<and>
   handlePutJob example_lib 1 body_truncated server_one_job =
     (Response StatusBadRequest NoBody, server_one_job) \<and>
   Decoder_readValue example_lib body_bad_frequency = Inr body_bad_frequency \<and>
   ParseDuration example_lib
     (d_Frequency (snd (json_Unmarshal_d example_lib body_bad_frequency))) =
     Inl ''time: invalid duration'' \<and>
   handleAddJob example_lib body_bad_frequency server_one_job =
     (Response StatusBadRequest NoBody, server_one_job) \<and>
   handlePutJob example_lib 1 body_bad_frequency server_one_job =
     (Response StatusBadRequest NoBody, server_one_job) \<and>
   Decoder_readValue example_lib body_bad_query = Inr body_bad_query \<and>
   d_JqQuery (snd (json_Unmarshal_d example_lib body_bad_query)) =
     Some \<lparr>mq_Query = ''.['', mq_Expectation = ''up''\<rparr> \<and>
   gojq_Parse example_lib ''.['' = Inl ''unexpected token'' \<and>
   handleAddJob example_lib body_bad_query server_one_job =
     (Response StatusBadRequest NoBody, server_one_job) \<and>
   handlePutJob example_lib 1 body_bad_query server_one_job =
     (Response StatusBadRequest NoBody, server_one_job)"
proof -
  have t: "Decoder_readValue example_lib body_truncated = Inl ''unexpected EOF''"
    by (simp add: example_lib_def)
  have f1: "Decoder_readValue example_lib body_bad_frequency = Inr body_bad_frequency"
    by (simp add: example_lib_def body_bad_frequency_def body_truncated_def)
  have f2: "ParseDuration example_lib
      (d_Frequency (snd (json_Unmarshal_d example_lib body_bad_frequency))) =
      Inl ''time: invalid duration''"
    by (simp add: example_lib_def example_Unmarshal_d_def example_ParseDuration_def d_job_def
        body_job_a_def body_job_b_def body_post_def body_with_id_def
        body_zero_frequency_def body_bad_frequency_def)
  have q1: "Decoder_readValue example_lib body_bad_query = Inr body_bad_query"
    by (simp add: example_lib_def body_bad_query_def body_truncated_def)
  have q2: "d_JqQuery (snd (json_Unmarshal_d example_lib body_bad_query)) =
      Some \<lparr>mq_Query = ''.['', mq_Expectation = ''up''\<rparr>"
    by (simp add: example_lib_def example_Unmarshal_d_def d_job_def
        body_job_a_def body_job_b_def body_post_def body_with_id_def
        body_zero_frequency_def body_bad_frequency_def body_bad_query_def)
  have q3: "gojq_Parse example_lib ''.['' = Inl ''unexpected token''"
    by (simp add: example_lib_def)
  note inst = C8_malformed_payload_rejected [where L = example_lib and h = server_one_job
      and jobId = 1]
  from inst [where body = body_truncated and e = "''unexpected EOF''"] t
  have r1: "handleAddJob example_lib body_truncated server_one_job =
        (Response StatusBadRequest NoBody, server_one_job) \<and>
      handlePutJob example_lib 1 body_truncated server_one_job =
        (Response StatusBadRequest NoBody, server_one_job)"
    by blast
  from inst [where body = body_bad_frequency and data = body_bad_frequency
      and e = "''time: invalid duration''"] f1 f2
  have r2: "handleAddJob example_lib body_bad_frequency server_one_job =
        (Response StatusBadRequest NoBody, server_one_job) \<and>
      handlePutJob example_lib 1 body_bad_frequency server_one_job =
        (Response StatusBadRequest NoBody, server_one_job)"
    by blast
  from inst [where body = body_bad_query and data = body_bad_query
      and mq = "\<lparr>mq_Query = ''.['', mq_Expectation = ''up''\<rparr>"
      and e = "''unexpected token''"] q1 q2 q3
  have r3: "handleAddJob example_lib body_bad_query server_one_job =
        (Response StatusBadRequest NoBody, server_one_job) \<and>
      handlePutJob example_lib 1 body_bad_query server_one_job =
        (Response StatusBadRequest NoBody, server_one_job)"
    by simp
  from t f1 f2 q1 q2 q3 r1 r2 r3 show ?thesis by simp
qed

text \<open>
  The claim as written fails for the method: a creation payload with the method
  \<^verbatim>\<open>POST\<close> is answered 201 and its job is stored and started.
\<close>

theorem C8_post_method_counterexample:
  "Method job_post \<noteq> MethodGet \<and>
   handleAddJob example_lib body_post NewHealthcheckServer =
     (Response StatusCreated (EncodedJob (job_post\<lparr>Id := 1\<rparr>)),
      \<lparr>healthchecks = [(1, \<lparr>healthcheck = job_post\<lparr>Id := 1\<rparr>, quit = 0, ticker = 0\<rparr>)],
       wg = 1, nextHealthcheckId = 1, chans = [False],
       tickers = [(120000000000, False)]\<rparr>)"
  by (simp add: handleAddJob_def Decode_body_post AddHealthcheck_def make_chan_def
      NewTicker_def NewHealthcheckServer_def job_post_def job_a_def MethodGet_def
      word_sle_eq)

section \<open>The id of a created job\<close>

text \<open>
  C10. Decoding a payload never assigns the id of the job it fills: whatever the body
  holds, the id after decoding is the id before it. When the body decodes to a job \<open>q\<close>
  with a positive frequency, \<^verbatim>\<open>handleAddJob\<close> answers 201 with \<open>q\<close> under the id
  "counter plus one", stores \<open>q\<close> with that id under that key, and sets the counter to
  it. When the body does not decode, the answer is 400 and the server is unchanged; when
  the frequency is not positive, \<^verbatim>\<open>time.NewTicker\<close> panics and no job is stored. The
  handler has no other outcome.
\<close>

theorem C10_created_id_from_counter:
  "Id (snd (Decode L body h0)) = Id h0 \<and>
   (Decode L body zero_HealthcheckQuery = (Some err, q) \<longrightarrow>
      handleAddJob L body h = (Response StatusBadRequest NoBody, h)) \<and>
   (Decode L body zero_HealthcheckQuery = (None, q) \<and> \<not> Frequency q \<le>s 0 \<longrightarrow>
      handleAddJob L body h =
        (Response StatusCreated (EncodedJob (q\<lparr>Id := nextHealthcheckId h + 1\<rparr>)),
         h\<lparr>nextHealthcheckId := nextHealthcheckId h + 1,
           chans := chans h @ [False],
           tickers := tickers h @ [(Frequency q, False)],
           healthchecks :=
             AList.update (nextHealthcheckId h + 1)
               \<lparr>healthcheck = q\<lparr>Id := nextHealthcheckId h + 1\<rparr>,
                quit = length (chans h), ticker = length (tickers h)\<rparr>
               (healthchecks h),
           wg := wg h + 1\<rparr>) \<and>
      map_of (healthchecks (snd (handleAddJob L body h))) (nextHealthcheckId h + 1) =
        Some \<lparr>healthcheck = q\<lparr>Id := nextHealthcheckId h + 1\<rparr>,
              quit = length (chans h), ticker = length (tickers h)\<rparr> \<and>
      nextHealthcheckId (snd (handleAddJob L body h)) = nextHealthcheckId h + 1) \<and>
   (Decode L body zero_HealthcheckQuery = (None, q) \<and> Frequency q \<le>s 0 \<longrightarrow>
      handleAddJob L body h =
        (Aborted ''non-positive interval for NewTicker'',
         h\<lparr>nextHealthcheckId := nextHealthcheckId h + 1, chans := chans h @ [False]\<rparr>)) \<and>
   (handleAddJob L body h = (Response StatusBadRequest NoBody, h) \<or>
    (\<exists>msg h'. handleAddJob L body h = (Aborted msg, h') \<and>
        healthchecks h' = healthchecks h) \<or>
    (\<exists>job h'. handleAddJob L body h = (Response StatusCreated (EncodedJob job), h') \<and>
        Id job = nextHealthcheckId h + 1 \<and>
        nextHealthcheckId h' = nextHealthcheckId h + 1 \<and>
        (\<exists>j. map_of (healthchecks h') (nextHealthcheckId h + 1) = Some j \<and>
             healthcheck j = job)))"
proof (intro conjI impI)
  show "Id (snd (Decode L body h0)) = Id h0"
    by (rule Id_Decode)
next
  assume "Decode L body zero_HealthcheckQuery = (Some err, q)"
  then show "handleAddJob L body h = (Response StatusBadRequest NoBody, h)"
    by (simp add: handleAddJob_def)
next
  assume a: "Decode L body zero_HealthcheckQuery = (None, q) \<and> \<not> Frequency q \<le>s 0"
  then show eq: "handleAddJob L body h =
        (Response StatusCreated (EncodedJob (q\<lparr>Id := nextHealthcheckId h + 1\<rparr>)),
         h\<lparr>nextHealthcheckId := nextHealthcheckId h + 1,
           chans := chans h @ [False],
           tickers := tickers h @ [(Frequency q, False)],
           healthchecks :=
             AList.update (nextHealthcheckId h + 1)
               \<lparr>healthcheck = q\<lparr>Id := nextHealthcheckId h + 1\<rparr>,
                quit = length (chans h), ticker = length (tickers h)\<rparr>
               (healthchecks h),
           wg := wg h + 1\<rparr>)"
    by (simp add: handleAddJob_def AddHealthcheck_returned)
  show "map_of (healthchecks (snd (handleAddJob L body h))) (nextHealthcheckId h + 1) =
        Some \<lparr>healthcheck = q\<lparr>Id := nextHealthcheckId h + 1\<rparr>,
              quit = length (chans h), ticker = length (tickers h)\<rparr>"
    by (simp add: eq update_conv')
  show "nextHealthcheckId (snd (handleAddJob L body h)) = nextHealthcheckId h + 1"
    by (simp add: eq)
next
  assume "Decode L body zero_HealthcheckQuery = (None, q) \<and> Frequency q \<le>s 0"
  then show "handleAddJob L body h =
        (Aborted ''non-positive interval for NewTicker'',
         h\<lparr>nextHealthcheckId := nextHealthcheckId h + 1, chans := chans h @ [False]\<rparr>)"
    by (simp add: handleAddJob_def AddHealthcheck_panicked)
next
  obtain e d where d: "Decode L body zero_HealthcheckQuery = (e, d)"
    by (cases "Decode L body zero_HealthcheckQuery")
  show "handleAddJob L body h = (Response StatusBadRequest NoBody, h) \<or>
    (\<exists>msg h'. handleAddJob L body h = (Aborted msg, h') \<and>
        healthchecks h' = healthchecks h) \<or>
    (\<exists>job h'. handleAddJob L body h = (Response StatusCreated (EncodedJob job), h') \<and>
        Id job = nextHealthcheckId h + 1 \<and>
        nextHealthcheckId h' = nextHealthcheckId h + 1 \<and>
        (\<exists>j. map_of (healthchecks h') (nextHealthcheckId h + 1) = Some j \<and>
             healthcheck j = job))"
  proof (cases e)
    case (Some x)
    with d show ?thesis by (simp add: handleAddJob_def)
  next
    case None
    show ?thesis
    proof (cases "Frequency d \<le>s 0")
      case True
      with d None show ?thesis
        by (simp add: handleAddJob_def AddHealthcheck_panicked)
    next
      case False
      with d None show ?thesis
        by (simp add: handleAddJob_def AddHealthcheck_returned update_conv')
    qed
  qed
qed

text \<open>
  On the server that holds job 1 and whose counter is 1, a payload that carries the id 7
  is answered 201 with the id 2 and stored under the key 2; a body that is cut off is
  answered 400.
\<close>

theorem C10_created_id_witness:
  "Decode example_lib body_with_id zero_HealthcheckQuery = (None, job_a) \<and>
   \<not> Frequency job_a \<le>s 0 \<and>
   nextHealthcheckId server_one_job = 1 \<and>
   handleAddJob example_lib body_with_id server_one_job =
     (Response StatusCreated (EncodedJob (job_a\<lparr>Id := 2\<rparr>)),
      \<lparr>healthchecks = [(1, \<lparr>healthcheck = job_a\<lparr>Id := 1\<rparr>, quit = 0, ticker = 0\<rparr>),
                       (2, \<lparr>healthcheck = job_a\<lparr>Id := 2\<rparr>, quit = 1, ticker = 1\<rparr>)],
       wg = 2, nextHealthcheckId = 2, chans = [False, False],
       tickers = [(120000000000, False), (120000000000, False)]\<rparr>) \<and>
   map_of (healthchecks (snd (handleAddJob example_lib body_with_id server_one_job))) 2 =
     Some \<lparr>healthcheck = job_a\<lparr>Id := 2\<rparr>, quit = 1, ticker = 1\<rparr> \<and>
   Decode example_lib body_truncated zero_HealthcheckQuery =
     (Some ''unexpected EOF'', zero_HealthcheckQuery) \<and>
   handleAddJob example_lib body_truncated server_one_job =
     (Response StatusBadRequest NoBody, server_one_job)"
proof -
  have c: "nextHealthcheckId server_one_job = 1"
    by (simp add: server_one_job_eq)
  note inst = C10_created_id_from_counter [of example_lib body_with_id _ _ job_a server_one_job]
  from inst Decode_body_with_id Frequency_job_a
  have "handleAddJob example_lib body_with_id server_one_job =
      (Response StatusCreated (EncodedJob (job_a\<lparr>Id := nextHealthcheckId server_one_job + 1\<rparr>)),
       server_one_job\<lparr>nextHealthcheckId := nextHealthcheckId server_one_job + 1,
         chans := chans server_one_job @ [False],
         tickers := tickers server_one_job @ [(Frequency job_a, False)],
         healthchecks :=
           AList.update (nextHealthcheckId server_one_job + 1)
             \<lparr>healthcheck = job_a\<lparr>Id := nextHealthcheckId server_one_job + 1\<rparr>,
              quit = length (chans server_one_job), ticker = length (tickers server_one_job)\<rparr>
             (healthchecks server_one_job),
         wg := wg server_one_job + 1\<rparr>)"
    by blast
  then have created: "handleAddJob example_lib body_with_id server_one_job =
     (Response StatusCreated (EncodedJob (job_a\<lparr>Id := 2\<rparr>)),
      \<lparr>healthchecks = [(1, \<lparr>healthcheck = job_a\<lparr>Id := 1\<rparr>, quit = 0, ticker = 0\<rparr>),
                       (2, \<lparr>healthcheck = job_a\<lparr>Id := 2\<rparr>, quit = 1, ticker = 1\<rparr>)],
       wg = 2, nextHealthcheckId = 2, chans = [False, False],
       tickers = [(120000000000, False), (120000000000, False)]\<rparr>)"
    by (simp add: server_one_job_eq) (simp add: job_a_def)
  then have stored: "map_of (healthchecks
      (snd (handleAddJob example_lib body_with_id server_one_job))) 2 =
      Some \<lparr>healthcheck = job_a\<lparr>Id := 2\<rparr>, quit = 1, ticker = 1\<rparr>"
    by simp
  from C10_created_id_from_counter [of example_lib body_truncated _ "''unexpected EOF''" zero_HealthcheckQuery
      server_one_job] Decode_body_truncated
  have rejected: "handleAddJob example_lib body_truncated server_one_job =
      (Response StatusBadRequest NoBody, server_one_job)"
    by blast
  from Decode_body_with_id Frequency_job_a c created stored Decode_body_truncated rejected
  show ?thesis by blast
qed

end
